theory Spec2Isabelle
  imports
    Complex_Main
    "HOL-Library.Char_ord"
    "HOL-Library.List_Lexorder"
begin

section \<open>Python values used by the converter\<close>

text \<open>
  The development embeds \<^verbatim>\<open>emotibit_yq_app.py\<close>: the session matcher
  \<^verbatim>\<open>find_emotibit_sessions\<close>, the metadata parser \<^verbatim>\<open>load_emotibit_json\<close>,
  the reshaper \<^verbatim>\<open>parse_emotibit_csv\<close>, the sampling-rate estimate of
  \<^verbatim>\<open>write_yq_folder\<close> and the session loop of the upload handler.

  Text is a \<^typ>\<open>string\<close>; every string operation below has the meaning Python gives it
  on ASCII text (file names and measurement lines outside ASCII are not covered).
\<close>

subsection \<open>Strings\<close>

text \<open>\<^verbatim>\<open>str.isspace\<close> on ASCII: tab, line feed, vertical tab, form feed, carriage
  return, the four separators 28..31 and the blank.\<close>

definition isspace :: "char \<Rightarrow> bool" where
  "isspace c = (let n = (of_char c :: nat) in (9 \<le> n \<and> n \<le> 13) \<or> (28 \<le> n \<and> n \<le> 32))"

definition strip :: "string \<Rightarrow> string" where
  "strip s = rev (dropWhile isspace (rev (dropWhile isspace s)))"

text \<open>\<^verbatim>\<open>s.split(sep)\<close> for a one-character separator: never an empty list.\<close>

fun split_on :: "char \<Rightarrow> string \<Rightarrow> string list" where
  "split_on sep [] = [[]]"
| "split_on sep (c # cs) =
     (if c = sep then [] # split_on sep cs
      else (case split_on sep cs of
              [] \<Rightarrow> [[c]]
            | w # ws \<Rightarrow> (c # w) # ws))"

definition lower_char :: "char \<Rightarrow> char" where
  "lower_char c =
     (let n = (of_char c :: nat) in if 65 \<le> n \<and> n \<le> 90 then char_of (n + 32) else c)"

definition lower :: "string \<Rightarrow> string" where
  "lower s = map lower_char s"

fun startswith :: "string \<Rightarrow> string \<Rightarrow> bool" where
  "startswith s [] = True"
| "startswith [] (p # ps) = False"
| "startswith (c # cs) (p # ps) = (c = p \<and> startswith cs ps)"

definition endswith :: "string \<Rightarrow> string \<Rightarrow> bool" where
  "endswith s suffix = startswith (rev s) (rev suffix)"

text \<open>\<^verbatim>\<open>sub in s\<close>.\<close>

fun contains :: "string \<Rightarrow> string \<Rightarrow> bool" where
  "contains sub [] = (sub = [])"
| "contains sub (c # cs) = (startswith (c # cs) sub \<or> contains sub cs)"

text \<open>\<^verbatim>\<open>s.find(sub)\<close>: the first index at which \<^verbatim>\<open>sub\<close> starts, or -1.\<close>

fun find_from :: "nat \<Rightarrow> string \<Rightarrow> string \<Rightarrow> int" where
  "find_from i [] sub = (if sub = [] then int i else - 1)"
| "find_from i (c # cs) sub =
     (if startswith (c # cs) sub then int i else find_from (Suc i) cs sub)"

definition str_find :: "string \<Rightarrow> string \<Rightarrow> int" where
  "str_find s sub = find_from 0 s sub"

text \<open>\<^verbatim>\<open>s.rfind(c)\<close> for one character: the last index of \<^verbatim>\<open>c\<close>, or -1.\<close>

definition rfind_char :: "char \<Rightarrow> string \<Rightarrow> int" where
  "rfind_char c s =
     (if c \<in> set s
      then int (length s) - 1 - int (length (takeWhile (\<lambda>x. x \<noteq> c) (rev s)))
      else - 1)"

text \<open>\<^verbatim>\<open>s.replace(" ", "_")\<close> and \<^verbatim>\<open>s.replace(" ", "")\<close>.\<close>

definition spaces_to_underscores :: "string \<Rightarrow> string" where
  "spaces_to_underscores s = map (\<lambda>c. if c = CHR '' '' then CHR ''_'' else c) s"

definition remove_spaces :: "string \<Rightarrow> string" where
  "remove_spaces s = filter (\<lambda>c. c \<noteq> CHR '' '') s"

subsection \<open>Paths (\<^verbatim>\<open>posixpath\<close>)\<close>

definition path_join :: "string \<Rightarrow> string \<Rightarrow> string" where
  "path_join a p =
     (if startswith p ''/'' then p
      else if a = [] \<or> endswith a ''/'' then a @ p
      else a @ ''/'' @ p)"

definition basename :: "string \<Rightarrow> string" where
  "basename p = drop (nat (rfind_char CHR ''/'' p + 1)) p"

text \<open>\<^verbatim>\<open>os.path.splitext\<close>: the extension starts at the last dot of the last path
  component, unless nothing but dots precedes that dot in the component.\<close>

definition splitext :: "string \<Rightarrow> string \<times> string" where
  "splitext p =
     (let sepIndex = rfind_char CHR ''/'' p;
          dotIndex = rfind_char CHR ''.'' p
      in if dotIndex > sepIndex \<and>
            list_ex (\<lambda>c. c \<noteq> CHR ''.'')
              (take (nat (dotIndex - (sepIndex + 1))) (drop (nat (sepIndex + 1)) p))
         then (take (nat dotIndex) p, drop (nat dotIndex) p)
         else (p, []))"

section \<open>The session matcher\<close>

text \<open>
  \<^verbatim>\<open>os.walk\<close> hands the matcher a sequence of directories, each with the names of its
  files; that sequence is the input here. A session is the dictionary
  \<^verbatim>\<open>{"json": ..., "csv": ..., "name": ...}\<close>.
\<close>

type_synonym walk = "(string \<times> string list) list"

record session =
  sess_json :: string
  sess_csv :: string
  sess_name :: string

text \<open>The inner loop over the files of one directory (\<open>dirpath\<close> is the
  \<^verbatim>\<open>root\<close> of the source); the pair holds
  \<^verbatim>\<open>all_jsons\<close> and \<^verbatim>\<open>all_csvs\<close>.\<close>

fun scan_files :: "string \<Rightarrow> string list \<Rightarrow> string list \<times> string list \<Rightarrow> string list \<times> string list" where
  "scan_files dirpath [] acc = acc"
| "scan_files dirpath (f # fs) (all_jsons, all_csvs) =
     (if startswith f ''._'' then scan_files dirpath fs (all_jsons, all_csvs)
      else
        let fp = path_join dirpath f in
        if endswith (lower f) ''.json'' \<and> contains ''_info'' (lower f)
        then scan_files dirpath fs (all_jsons @ [fp], all_csvs)
        else if endswith (lower f) ''.csv''
        then scan_files dirpath fs (all_jsons, all_csvs @ [fp])
        else scan_files dirpath fs (all_jsons, all_csvs))"

fun scan_walk :: "walk \<Rightarrow> string list \<times> string list \<Rightarrow> string list \<times> string list" where
  "scan_walk [] acc = acc"
| "scan_walk ((dirpath, files) # rest) acc =
     (if contains ''__MACOSX'' dirpath then scan_walk rest acc
      else scan_walk rest (scan_files dirpath files acc))"

text \<open>The base key of a metadata path: its stem up to the first \<^verbatim>\<open>_info\<close>
  (found in the lowercased stem); \<open>None\<close> is the \<^verbatim>\<open>continue\<close> of the source.\<close>

definition base_key_of :: "string \<Rightarrow> string option" where
  "base_key_of json_path =
     (let stem = fst (splitext (basename json_path));
          idx = str_find (lower stem) ''_info''
      in if idx = - 1 then None else Some (take (nat idx) stem))"

definition candidates_for :: "string list \<Rightarrow> string \<Rightarrow> string list" where
  "candidates_for all_csvs base_key =
     filter (\<lambda>csv_path. startswith (fst (splitext (basename csv_path))) base_key) all_csvs"

text \<open>\<^verbatim>\<open>list.sort(key=...)\<close> is stable, as \<^const>\<open>sort_key\<close> is;
  \<^verbatim>\<open>candidates[0]\<close> is read only from a non-empty list.\<close>

fun pair_sessions :: "string list \<Rightarrow> string list \<Rightarrow> session list" where
  "pair_sessions [] all_csvs = []"
| "pair_sessions (json_path # rest) all_csvs =
     (case base_key_of json_path of
        None \<Rightarrow> pair_sessions rest all_csvs
      | Some base_key \<Rightarrow>
          (case sort_key (\<lambda>p. length (basename p)) (candidates_for all_csvs base_key) of
             [] \<Rightarrow> pair_sessions rest all_csvs
           | csv_path # _ \<Rightarrow>
               \<lparr>sess_json = json_path, sess_csv = csv_path, sess_name = base_key\<rparr>
                 # pair_sessions rest all_csvs))"

definition all_jsons :: "walk \<Rightarrow> string list" where
  "all_jsons w = fst (scan_walk w ([], []))"

definition all_csvs :: "walk \<Rightarrow> string list" where
  "all_csvs w = snd (scan_walk w ([], []))"

definition find_emotibit_sessions :: "walk \<Rightarrow> session list" where
  "find_emotibit_sessions w = pair_sessions (all_jsons w) (all_csvs w)"

section \<open>Numbers\<close>

subsection \<open>Errors\<close>

text \<open>The exceptions the converter can raise; the upload handler catches every one of
  them (\<^verbatim>\<open>except Exception\<close>).\<close>

datatype error =
  ValueError | KeyError | TypeError | AttributeError | IndexError
  | OverflowError | ZeroDivisionError

definition bind :: "error + 'a \<Rightarrow> ('a \<Rightarrow> error + 'b) \<Rightarrow> error + 'b" where
  "bind m f = (case m of Inl e \<Rightarrow> Inl e | Inr x \<Rightarrow> f x)"

subsection \<open>Binary64 floats\<close>

text \<open>
  A Python \<^verbatim>\<open>float\<close> is an IEEE 754 binary64 number: a rational that the format
  represents, an infinity or a NaN. The sign of a zero is not kept: no operation below
  depends on it. Every operation rounds the exact result to the nearest representable
  number, ties to the even significand (\<open>round_double\<close>); a result of magnitude
  \<open>2 ^ 1024\<close> or more is an infinity, and below \<open>2 ^ - 1022\<close> the spacing stays
  \<open>2 ^ - 1074\<close> (the subnormal numbers).
\<close>

datatype pyfloat = Finite rat | PosInf | NegInf | NaN

text \<open>Powers of two with an integer exponent, by repeated squaring.\<close>

function two_to :: "int \<Rightarrow> rat" where
  "two_to e =
     (if e \<le> 0 then 1
      else let h = two_to (e div 2) in if even e then h * h else 2 * (h * h))"
  by auto
termination
  by (relation "measure nat") auto

declare two_to.simps [simp del]

definition pow2 :: "int \<Rightarrow> rat" where
  "pow2 e = (if 0 \<le> e then two_to e else 1 / two_to (- e))"

text \<open>\<^verbatim>\<open>int.bit_length\<close>, for a number that is not negative.\<close>

function bit_length :: "int \<Rightarrow> int" where
  "bit_length n = (if n \<le> 0 then 0 else 1 + bit_length (n div 2))"
  by auto
termination
  by (relation "measure nat") auto

declare bit_length.simps [simp del]

text \<open>\<open>ilog2 x\<close> is the exponent \<open>e\<close> with \<open>2 ^ e \<le> x < 2 ^ (e + 1)\<close>, for \<open>x > 0\<close>.\<close>

definition ilog2 :: "rat \<Rightarrow> int" where
  "ilog2 x =
     (let e0 = bit_length (fst (quotient_of x)) - bit_length (snd (quotient_of x))
      in if pow2 e0 \<le> x then e0 else e0 - 1)"

definition round_half_even :: "rat \<Rightarrow> int" where
  "round_half_even x =
     (let f = \<lfloor>x\<rfloor>; d = x - of_int f
      in if d < 1 / 2 then f
         else if 1 / 2 < d then f + 1
         else if even f then f else f + 1)"

definition round_double :: "rat \<Rightarrow> pyfloat" where
  "round_double x =
     (if x = 0 then Finite 0
      else
        let a = \<bar>x\<bar>;
            e = max (ilog2 a) (- 1022);
            ulp = pow2 (e - 52);
            r = of_int (round_half_even (a / ulp)) * ulp
        in if pow2 1024 \<le> r then (if 0 < x then PosInf else NegInf)
           else Finite (if 0 < x then r else - r))"

definition fneg :: "pyfloat \<Rightarrow> pyfloat" where
  "fneg a = (case a of Finite x \<Rightarrow> Finite (- x) | PosInf \<Rightarrow> NegInf | NegInf \<Rightarrow> PosInf | NaN \<Rightarrow> NaN)"

text \<open>The sign of a float that is not NaN: -1, 0 or 1.\<close>

definition fsign :: "pyfloat \<Rightarrow> int" where
  "fsign a =
     (case a of
        Finite x \<Rightarrow> (if 0 < x then 1 else if x < 0 then - 1 else 0)
      | PosInf \<Rightarrow> 1
      | NegInf \<Rightarrow> - 1
      | NaN \<Rightarrow> 0)"

definition signed_inf :: "int \<Rightarrow> pyfloat" where
  "signed_inf s = (if 0 < s then PosInf else if s < 0 then NegInf else NaN)"

definition is_finite :: "pyfloat \<Rightarrow> bool" where
  "is_finite a = (case a of Finite x \<Rightarrow> True | _ \<Rightarrow> False)"

definition fadd :: "pyfloat \<Rightarrow> pyfloat \<Rightarrow> pyfloat" where
  "fadd a b =
     (case (a, b) of
        (NaN, _) \<Rightarrow> NaN
      | (_, NaN) \<Rightarrow> NaN
      | (Finite x, Finite y) \<Rightarrow> round_double (x + y)
      | (Finite x, c) \<Rightarrow> c
      | (c, Finite y) \<Rightarrow> c
      | (c, d) \<Rightarrow> (if c = d then c else NaN))"

definition fsub :: "pyfloat \<Rightarrow> pyfloat \<Rightarrow> pyfloat" where
  "fsub a b = fadd a (fneg b)"

definition fmul :: "pyfloat \<Rightarrow> pyfloat \<Rightarrow> pyfloat" where
  "fmul a b =
     (case (a, b) of
        (NaN, _) \<Rightarrow> NaN
      | (_, NaN) \<Rightarrow> NaN
      | (Finite x, Finite y) \<Rightarrow> round_double (x * y)
      | (c, d) \<Rightarrow> signed_inf (fsign c * fsign d))"

text \<open>Division where the divisor is not zero (Python raises on a zero divisor before
  dividing, see \<open>py_truediv\<close>).\<close>

definition fdiv :: "pyfloat \<Rightarrow> pyfloat \<Rightarrow> pyfloat" where
  "fdiv a b =
     (case (a, b) of
        (NaN, _) \<Rightarrow> NaN
      | (_, NaN) \<Rightarrow> NaN
      | (Finite x, Finite y) \<Rightarrow> round_double (x / y)
      | (Finite x, d) \<Rightarrow> Finite 0
      | (c, Finite y) \<Rightarrow> signed_inf (fsign c * fsign (Finite y))
      | (c, d) \<Rightarrow> NaN)"

definition py_truediv :: "pyfloat \<Rightarrow> pyfloat \<Rightarrow> error + pyfloat" where
  "py_truediv a b = (if b = Finite 0 then Inl ZeroDivisionError else Inr (fdiv a b))"

text \<open>\<^verbatim>\<open>a > 0\<close> on floats; false for NaN.\<close>

definition fpositive :: "pyfloat \<Rightarrow> bool" where
  "fpositive a = (case a of Finite x \<Rightarrow> 0 < x | PosInf \<Rightarrow> True | _ \<Rightarrow> False)"

text \<open>\<^verbatim>\<open>a <= b\<close> on floats; false when either is NaN.\<close>

definition fle :: "pyfloat \<Rightarrow> pyfloat \<Rightarrow> bool" where
  "fle a b =
     (case (a, b) of
        (NaN, _) \<Rightarrow> False
      | (_, NaN) \<Rightarrow> False
      | (NegInf, _) \<Rightarrow> True
      | (_, PosInf) \<Rightarrow> True
      | (Finite x, Finite y) \<Rightarrow> x \<le> y
      | (_, _) \<Rightarrow> False)"

text \<open>Conversion of an integer: correctly rounded; Python's own conversion raises when
  the result would not be finite.\<close>

definition float_of_int :: "int \<Rightarrow> pyfloat" where
  "float_of_int n = round_double (of_int n)"

definition int_to_float :: "int \<Rightarrow> error + pyfloat" where
  "int_to_float n = (if is_finite (float_of_int n) then Inr (float_of_int n) else Inl OverflowError)"

text \<open>\<^verbatim>\<open>int(x)\<close> of a float truncates toward zero.\<close>

definition trunc_toward_zero :: "rat \<Rightarrow> int" where
  "trunc_toward_zero x = (if 0 \<le> x then \<lfloor>x\<rfloor> else \<lceil>x\<rceil>)"

definition int_of_float :: "pyfloat \<Rightarrow> error + int" where
  "int_of_float a =
     (case a of
        Finite x \<Rightarrow> Inr (trunc_toward_zero x)
      | NaN \<Rightarrow> Inl ValueError
      | _ \<Rightarrow> Inl OverflowError)"

text \<open>\<^verbatim>\<open>round(x)\<close> of a float rounds to the nearest integer, ties to even.\<close>

definition py_round :: "pyfloat \<Rightarrow> error + int" where
  "py_round a =
     (case a of
        Finite x \<Rightarrow> Inr (round_half_even x)
      | NaN \<Rightarrow> Inl ValueError
      | _ \<Rightarrow> Inl OverflowError)"

subsection \<open>Number literals\<close>

definition is_digit :: "char \<Rightarrow> bool" where
  "is_digit c = (let n = (of_char c :: nat) in 48 \<le> n \<and> n \<le> 57)"

definition digits_value :: "string \<Rightarrow> int" where
  "digits_value ds = foldl (\<lambda>a c. 10 * a + (int (of_char c) - 48)) 0 ds"

text \<open>An underscore of a number literal stands between two digits; \<open>prev\<close> is the
  character before the rest of the text, as in CPython's scan.\<close>

fun underscores_ok :: "char \<Rightarrow> string \<Rightarrow> bool" where
  "underscores_ok prev [] = (prev \<noteq> CHR ''_'')"
| "underscores_ok prev (c # cs) =
     (if c = CHR ''_'' then is_digit prev \<and> underscores_ok c cs
      else if prev = CHR ''_'' then is_digit c \<and> underscores_ok c cs
      else underscores_ok c cs)"

text \<open>An optional sign: whether it is a minus, and the text after it.\<close>

definition split_sign :: "string \<Rightarrow> bool \<times> string" where
  "split_sign s =
     (case s of
        [] \<Rightarrow> (False, [])
      | c # r \<Rightarrow> if c = CHR ''-'' then (True, r) else if c = CHR ''+'' then (False, r) else (False, s))"

text \<open>\<^verbatim>\<open>int(s)\<close> for a string: \<open>None\<close> is the \<^verbatim>\<open>ValueError\<close>. (The limit
  CPython 3.11 puts on the number of digits is not modelled.)\<close>

definition py_int :: "string \<Rightarrow> int option" where
  "py_int s =
     (let body = snd (split_sign (strip s)) in
      if body \<noteq> [] \<and> list_all (\<lambda>c. is_digit c \<or> c = CHR ''_'') body
           \<and> underscores_ok (CHR 0x00) body
      then Some ((if fst (split_sign (strip s)) then - 1 else 1) * digits_value (filter is_digit body))
      else None)"

definition pow10 :: "int \<Rightarrow> rat" where
  "pow10 e = (if 0 \<le> e then 10 ^ nat e else 1 / 10 ^ nat (- e))"

text \<open>The exponent part of a float literal: absent, or \<^verbatim>\<open>e\<close> with an optional sign
  and at least one digit.\<close>

definition exponent_value :: "string \<Rightarrow> int option" where
  "exponent_value s =
     (case s of
        [] \<Rightarrow> Some 0
      | c # r \<Rightarrow>
          if c = CHR ''e'' \<or> c = CHR ''E''
          then (let ds = snd (split_sign r) in
                if ds \<noteq> [] \<and> list_all is_digit ds
                then Some ((if fst (split_sign r) then - 1 else 1) * digits_value ds)
                else None)
          else None)"

text \<open>A decimal literal without sign: digits, an optional point and digits, an optional
  exponent; at least one digit before the exponent. Its value is rounded once.\<close>

definition decimal_value :: "string \<Rightarrow> rat option" where
  "decimal_value s =
     (let ip = takeWhile is_digit s;
          r1 = dropWhile is_digit s;
          fp = (case r1 of [] \<Rightarrow> [] | c # r \<Rightarrow> if c = CHR ''.'' then takeWhile is_digit r else []);
          r2 = (case r1 of [] \<Rightarrow> [] | c # r \<Rightarrow> if c = CHR ''.'' then dropWhile is_digit r else r1)
      in if ip = [] \<and> fp = [] then None
         else (case exponent_value r2 of
                 None \<Rightarrow> None
               | Some ex \<Rightarrow> Some (of_int (digits_value (ip @ fp)) * pow10 (ex - int (length fp)))))"

text \<open>\<^verbatim>\<open>float(s)\<close> for a string: \<open>None\<close> is the \<^verbatim>\<open>ValueError\<close>. The words
  \<^verbatim>\<open>inf\<close>, \<^verbatim>\<open>infinity\<close> and \<^verbatim>\<open>nan\<close> are accepted in any case, with a sign.\<close>

definition py_float :: "string \<Rightarrow> pyfloat option" where
  "py_float s =
     (let t = strip s in
      if \<not> underscores_ok (CHR 0x00) t then None
      else
        let u = filter (\<lambda>c. c \<noteq> CHR ''_'') t;
            neg = fst (split_sign u);
            body = snd (split_sign u)
        in if lower body = ''inf'' \<or> lower body = ''infinity'' then Some (if neg then NegInf else PosInf)
           else if lower body = ''nan'' then Some NaN
           else (case decimal_value body of
                   None \<Rightarrow> None
                 | Some x \<Rightarrow> Some (round_double (if neg then - x else x))))"

section \<open>The metadata document\<close>

text \<open>
  What \<^verbatim>\<open>json.load\<close> returns. An object is the list of its items; its keys are
  distinct, as those of a Python dictionary are.
\<close>

datatype json =
  JNull | JBool bool | JInt int | JFloat pyfloat | JStr string
  | JArr "json list" | JObj "(string \<times> json) list"

text \<open>The truth value Python gives a value (\<^verbatim>\<open>if x\<close>, \<^verbatim>\<open>x or y\<close>).\<close>

fun truthy :: "json \<Rightarrow> bool" where
  "truthy JNull = False"
| "truthy (JBool b) = b"
| "truthy (JInt n) = (n \<noteq> 0)"
| "truthy (JFloat x) = (x \<noteq> Finite 0)"
| "truthy (JStr s) = (s \<noteq> [])"
| "truthy (JArr xs) = (xs \<noteq> [])"
| "truthy (JObj kvs) = (kvs \<noteq> [])"

definition py_or :: "json \<Rightarrow> json \<Rightarrow> json" where
  "py_or a b = (if truthy a then a else b)"

text \<open>\<^verbatim>\<open>d.get(key, default)\<close> on a dictionary, and on any value (only a dictionary
  has the method).\<close>

definition dict_get :: "(string \<times> 'v) list \<Rightarrow> string \<Rightarrow> 'v \<Rightarrow> 'v" where
  "dict_get d k dflt = (case map_of d k of None \<Rightarrow> dflt | Some v \<Rightarrow> v)"

definition py_get :: "json \<Rightarrow> string \<Rightarrow> json \<Rightarrow> error + json" where
  "py_get x k dflt = (case x of JObj d \<Rightarrow> Inr (dict_get d k dflt) | _ \<Rightarrow> Inl AttributeError)"

text \<open>\<^verbatim>\<open>d[key] = v\<close>: a key that is present keeps its place.\<close>

fun dict_set :: "string \<Rightarrow> 'v \<Rightarrow> (string \<times> 'v) list \<Rightarrow> (string \<times> 'v) list" where
  "dict_set k v [] = [(k, v)]"
| "dict_set k v ((k', v') # d) = (if k' = k then (k, v) # d else (k', v') # dict_set k v d)"

text \<open>\<^verbatim>\<open>data[0]\<close> for a value that is truthy.\<close>

definition first_item :: "json \<Rightarrow> error + json" where
  "first_item data =
     (case data of
        JArr xs \<Rightarrow> (case xs of [] \<Rightarrow> Inl IndexError | x # _ \<Rightarrow> Inr x)
      | JStr s \<Rightarrow> (case s of [] \<Rightarrow> Inl IndexError | c # _ \<Rightarrow> Inr (JStr [c]))
      | JObj d \<Rightarrow> Inl KeyError
      | _ \<Rightarrow> Inl TypeError)"

text \<open>\<^verbatim>\<open>for tag in tags\<close>: the items of a list, the characters of a string, the keys
  of a dictionary; nothing else can be iterated.\<close>

definition iterate :: "json \<Rightarrow> error + json list" where
  "iterate x =
     (case x of
        JArr xs \<Rightarrow> Inr xs
      | JStr s \<Rightarrow> Inr (map (\<lambda>c. JStr [c]) s)
      | JObj d \<Rightarrow> Inr (map (\<lambda>kv. JStr (fst kv)) d)
      | _ \<Rightarrow> Inl TypeError)"

text \<open>How an f-string renders a value: a string as it is; the rendering of any other
  value is left to \<open>py_str\<close>, Python's \<^verbatim>\<open>str\<close>.\<close>

definition format_value :: "(json \<Rightarrow> string) \<Rightarrow> json \<Rightarrow> string" where
  "format_value py_str x = (case x of JStr s \<Rightarrow> s | _ \<Rightarrow> py_str x)"

record channel =
  ch_label :: string
  ch_nominal_srate :: json
  ch_units :: json
  ch_raw_info :: "(string \<times> json) list"

type_synonym channels = "(string \<times> channel) list"

text \<open>\<^verbatim>\<open>name = info.get("name", info.get("type", "Channel"))\<close>.\<close>

definition stream_name :: "(string \<times> json) list \<Rightarrow> json" where
  "stream_name info = dict_get info ''name'' (dict_get info ''type'' (JStr ''Channel''))"

text \<open>
  The loop over the tags of one stream record. A tag that is a list or an object cannot be
  a dictionary key (\<^verbatim>\<open>TypeError\<close>). A tag that is a number, a boolean or null is stored
  by the source under a key that is not a string; no lookup of the converter (a measurement
  tag, a column name) is anything but a string, so such a key is never found and the model
  leaves it out.
\<close>

fun register_tags ::
  "(json \<Rightarrow> string) \<Rightarrow> (string \<times> json) list \<Rightarrow> json list \<Rightarrow> channels \<Rightarrow> error + channels" where
  "register_tags py_str info [] chans = Inr chans"
| "register_tags py_str info (t # ts) chans =
     (case t of
        JStr tg \<Rightarrow>
          register_tags py_str info ts
            (dict_set tg
               \<lparr>ch_label =
                  remove_spaces (format_value py_str (stream_name info) @ ''_'' @ tg),
                ch_nominal_srate = dict_get info ''nominal_srate'' JNull,
                ch_units = dict_get info ''units'' JNull,
                ch_raw_info = info\<rparr>
               chans)
      | JArr xs \<Rightarrow> Inl TypeError
      | JObj d \<Rightarrow> Inl TypeError
      | _ \<Rightarrow> register_tags py_str info ts chans)"

text \<open>The loop over \<^verbatim>\<open>data[1:]\<close>.\<close>

fun register_streams :: "(json \<Rightarrow> string) \<Rightarrow> json list \<Rightarrow> channels \<Rightarrow> error + channels" where
  "register_streams py_str [] chans = Inr chans"
| "register_streams py_str (entry # rest) chans =
     bind (py_get entry ''info'' (JObj []))
       (\<lambda>info.
          case info of
            JObj kvs \<Rightarrow>
              bind (iterate (dict_get kvs ''typeTags'' (JArr [])))
                (\<lambda>tags. bind (register_tags py_str kvs tags chans) (register_streams py_str rest))
          | _ \<Rightarrow> Inl AttributeError)"

definition device_name_of :: "(string \<times> json) list \<Rightarrow> json" where
  "device_name_of raw_meta =
     py_or (dict_get raw_meta ''name'' JNull)
       (py_or (dict_get raw_meta ''source_id'' JNull)
          (py_or (dict_get raw_meta ''type'' JNull) (JStr ''UnknownDevice'')))"

definition device_id_of :: "(string \<times> json) list \<Rightarrow> error + json" where
  "device_id_of raw_meta =
     (if truthy (dict_get raw_meta ''device_id'' JNull) then Inr (dict_get raw_meta ''device_id'' JNull)
      else if truthy (dict_get raw_meta ''source_id'' JNull) then Inr (dict_get raw_meta ''source_id'' JNull)
      else (case device_name_of raw_meta of
              JStr s \<Rightarrow> Inr (JStr (spaces_to_underscores s))
            | _ \<Rightarrow> Inl AttributeError))"

text \<open>
  \<^verbatim>\<open>load_emotibit_json\<close>. The document is what \<^verbatim>\<open>json.load\<close> made of the file;
  \<open>None\<close> stands for a file it cannot decode (\<^verbatim>\<open>JSONDecodeError\<close>, a
  \<^verbatim>\<open>ValueError\<close>). When the loop over \<^verbatim>\<open>data[1:]\<close> is reached the document is a
  list: the first item of anything else has no \<^verbatim>\<open>get\<close>.
\<close>

definition load_emotibit_json ::
  "(json \<Rightarrow> string) \<Rightarrow> json option \<Rightarrow> error + ((string \<times> json) list \<times> channels)" where
  "load_emotibit_json py_str doc =
     (case doc of
        None \<Rightarrow> Inl ValueError
      | Some data \<Rightarrow>
          if \<not> truthy data then Inl ValueError
          else
            bind (first_item data)
              (\<lambda>first. bind (py_get first ''info'' (JObj []))
                 (\<lambda>raw.
                    case raw of
                      JObj raw_meta \<Rightarrow>
                        bind (device_id_of raw_meta)
                          (\<lambda>device_id.
                             bind (register_streams py_str (case data of JArr xs \<Rightarrow> drop 1 xs | _ \<Rightarrow> []) [])
                               (\<lambda>chans.
                                  Inr (dict_set ''__device_id__'' device_id
                                         (dict_set ''__device_name__'' (device_name_of raw_meta) raw_meta),
                                       chans)))
                    | _ \<Rightarrow> Inl AttributeError)))"

section \<open>The reshaper\<close>

subsection \<open>Long records\<close>

record long_record =
  r_timestamp :: int
  r_tag :: string
  r_value :: pyfloat

text \<open>
  The recording start. \<^verbatim>\<open>datetime.strptime\<close> and \<^verbatim>\<open>datetime.timestamp\<close> belong to
  the platform (the latter reads its time zone), so they are a parameter: \<open>strptime s\<close>
  is the error \<^verbatim>\<open>strptime\<close> raises on \<open>s\<close>, or the clock that maps the
  \<^verbatim>\<open>system_ms\<close> of a line to \<^verbatim>\<open>int((base_dt + timedelta(milliseconds=system_ms)).timestamp() * 1000)\<close>,
  which can raise as well.
\<close>

type_synonym clock = "int \<Rightarrow> error + int"

definition resolve_start :: "(string \<Rightarrow> error + clock) \<Rightarrow> json \<Rightarrow> error + clock option" where
  "resolve_start strptime device_created_at =
     (if truthy device_created_at
      then (case device_created_at of
              JStr s \<Rightarrow> bind (strptime s) (\<lambda>c. Inr (Some c))
            | _ \<Rightarrow> Inl TypeError)
      else Inr None)"

text \<open>The right operand of \<^verbatim>\<open>float / sr\<close>: a float, an integer or a boolean.\<close>

definition as_divisor :: "json \<Rightarrow> error + pyfloat" where
  "as_divisor sr =
     (case sr of
        JFloat x \<Rightarrow> Inr x
      | JInt n \<Rightarrow> int_to_float n
      | JBool b \<Rightarrow> Inr (Finite (if b then 1 else 0))
      | _ \<Rightarrow> Inl TypeError)"

text \<open>\<^verbatim>\<open>(idx * 1.0 / sr) * 1000.0\<close>, the offset of a sample in milliseconds before it
  is made an integer.\<close>

definition offset_ms :: "nat \<Rightarrow> json \<Rightarrow> error + pyfloat" where
  "offset_ms idx sr =
     bind (int_to_float (int idx))
       (\<lambda>i. bind (as_divisor sr)
          (\<lambda>d. bind (py_truediv (fmul i (Finite 1)) d)
             (\<lambda>q. Inr (fmul q (Finite 1000)))))"

text \<open>\<^verbatim>\<open>int((idx * 1.0 / sr) * 1000.0)\<close>.\<close>

definition sample_offset :: "nat \<Rightarrow> json \<Rightarrow> error + int" where
  "sample_offset idx sr = bind (offset_ms idx sr) int_of_float"

text \<open>\<^verbatim>\<open>values[:n_samples]\<close>: a negative bound counts from the end of the list.\<close>

definition slice_to :: "int \<Rightarrow> 'a list \<Rightarrow> 'a list" where
  "slice_to n xs = (if 0 \<le> n then take (nat n) xs else take (length xs - nat (- n)) xs)"

text \<open>The loop \<^verbatim>\<open>for idx, val in enumerate(values[:n_samples])\<close>, from index \<open>idx\<close> on.
  Only \<^verbatim>\<open>float(val)\<close> is guarded; an error of the offset leaves the function.\<close>

fun emit_samples :: "int \<Rightarrow> json \<Rightarrow> string \<Rightarrow> nat \<Rightarrow> string list \<Rightarrow> error + long_record list" where
  "emit_samples base_ts_ms sr tg idx [] = Inr []"
| "emit_samples base_ts_ms sr tg idx (v # vs) =
     (case py_float v of
        None \<Rightarrow> emit_samples base_ts_ms sr tg (Suc idx) vs
      | Some x \<Rightarrow>
          bind (sample_offset idx sr)
            (\<lambda>off. bind (emit_samples base_ts_ms sr tg (Suc idx) vs)
               (\<lambda>rest. Inr (\<lparr>r_timestamp = base_ts_ms + off, r_tag = tg, r_value = x\<rparr> # rest))))"

text \<open>The body of the loop over the lines of the file: the records one line adds.\<close>

definition line_records :: "clock option \<Rightarrow> channels \<Rightarrow> string \<Rightarrow> error + long_record list" where
  "line_records base_dt channels_meta raw =
     (let line = strip raw in
      if line = [] then Inr []
      else
        let parts = map strip (split_on CHR '','' line) in
        if length parts < 7 then Inr []
        else
          (case py_int (parts ! 0) of
             None \<Rightarrow> Inr []
           | Some system_ms \<Rightarrow>
               let tg = parts ! 3;
                   n_samples = (case py_int (parts ! 2) of None \<Rightarrow> 1 | Some n \<Rightarrow> n);
                   vals = drop 6 parts
               in (case map_of channels_meta tg of
                     None \<Rightarrow> Inr []
                   | Some ch_meta \<Rightarrow>
                       let sr = py_or (ch_nominal_srate ch_meta) (JFloat (Finite 25)) in
                       bind (case base_dt of None \<Rightarrow> Inr system_ms | Some c \<Rightarrow> c system_ms)
                         (\<lambda>base_ts_ms. emit_samples base_ts_ms sr tg 0 (slice_to n_samples vals)))))"

fun read_lines :: "clock option \<Rightarrow> channels \<Rightarrow> string list \<Rightarrow> error + long_record list" where
  "read_lines base_dt channels_meta [] = Inr []"
| "read_lines base_dt channels_meta (l # ls) =
     bind (line_records base_dt channels_meta l)
       (\<lambda>recs. bind (read_lines base_dt channels_meta ls) (\<lambda>rest. Inr (recs @ rest)))"

text \<open>Lines 107 to 151 of the source: the list \<^verbatim>\<open>records\<close>.\<close>

definition long_records ::
  "(string \<Rightarrow> error + clock) \<Rightarrow> string list \<Rightarrow> json \<Rightarrow> channels \<Rightarrow> error + long_record list" where
  "long_records strptime lines device_created_at channels_meta =
     bind (resolve_start strptime device_created_at)
       (\<lambda>base_dt. read_lines base_dt channels_meta lines)"

subsection \<open>The wide table\<close>

text \<open>
  A data frame of the converter: the column labels, and the rows; the first cell of a row
  is the integer of the \<^verbatim>\<open>timestamp\<close> column, the others are floats (NaN where pandas
  has no value).
\<close>

record frame =
  df_columns :: "string list"
  df_rows :: "(int \<times> pyfloat list) list"

definition group_values :: "long_record list \<Rightarrow> int \<Rightarrow> string \<Rightarrow> pyfloat list" where
  "group_values recs ts tg =
     map r_value (filter (\<lambda>r. r_timestamp r = ts \<and> r_tag r = tg) recs)"

definition the_rat :: "pyfloat \<Rightarrow> rat" where
  "the_rat a = (case a of Finite x \<Rightarrow> x | _ \<Rightarrow> 0)"

text \<open>
  The aggregation \<^verbatim>\<open>mean\<close> of pandas on one group: NaN values are missing values and
  are skipped, a group without any other value has the mean NaN, infinities follow IEEE.
  The mean of finite values is their sum divided by their number, taken exactly: pandas
  computes it in binary64, and the rounding of its sum and quotient is not modelled.
\<close>

definition nan_mean :: "pyfloat list \<Rightarrow> pyfloat" where
  "nan_mean vs =
     (let xs = filter (\<lambda>v. v \<noteq> NaN) vs in
      if xs = [] then NaN
      else if PosInf \<in> set xs then (if NegInf \<in> set xs then NaN else PosInf)
      else if NegInf \<in> set xs then NegInf
      else Finite (sum_list (map the_rat xs) / of_nat (length xs)))"

text \<open>
  \<^verbatim>\<open>pivot_table(index="timestamp", columns="tag", values="value", aggfunc="mean")\<close>
  aggregates every (timestamp, tag) group, drops the groups whose mean is NaN (its default
  \<^verbatim>\<open>dropna=True\<close>), and lays the others out with the timestamps as sorted index and
  the tags as sorted columns.
\<close>

definition kept_groups :: "long_record list \<Rightarrow> (int \<times> string) list" where
  "kept_groups recs =
     filter (\<lambda>g. nan_mean (group_values recs (fst g) (snd g)) \<noteq> NaN)
       (remdups (map (\<lambda>r. (r_timestamp r, r_tag r)) recs))"

definition pivot_index :: "long_record list \<Rightarrow> int list" where
  "pivot_index recs = sort (remdups (map fst (kept_groups recs)))"

definition pivot_columns :: "long_record list \<Rightarrow> string list" where
  "pivot_columns recs = sort (remdups (map snd (kept_groups recs)))"

text \<open>
  Lines 156 to 164: the pivot, \<^verbatim>\<open>reset_index\<close> (which cannot insert the column
  \<^verbatim>\<open>timestamp\<close> beside a tag of that name), the first timestamp (\<^verbatim>\<open>iloc[0]\<close> of a
  table that may have no row), and the column \<^verbatim>\<open>Time\<close> inserted second (not beside a
  tag of that name).
\<close>

definition wide_table :: "long_record list \<Rightarrow> error + frame" where
  "wide_table recs =
     (if ''timestamp'' \<in> set (pivot_columns recs) then Inl ValueError
      else
        (case pivot_index recs of
           [] \<Rightarrow> Inl IndexError
         | first_ts # _ \<Rightarrow>
             if ''Time'' \<in> set (pivot_columns recs) then Inl ValueError
             else
               Inr \<lparr>df_columns = ''timestamp'' # ''Time'' # pivot_columns recs,
                    df_rows =
                      map (\<lambda>ts. (ts,
                                 fdiv (float_of_int (ts - first_ts)) (Finite 1000)
                                   # map (\<lambda>tg. nan_mean (group_values recs ts tg)) (pivot_columns recs)))
                        (pivot_index recs)\<rparr>))"

text \<open>Lines 166 to 170: every column whose name is a key of \<^verbatim>\<open>channels_meta\<close> takes the
  label of that channel.\<close>

definition rename_columns :: "channels \<Rightarrow> frame \<Rightarrow> frame" where
  "rename_columns channels_meta df =
     df\<lparr>df_columns :=
          map (\<lambda>c. case map_of channels_meta c of None \<Rightarrow> c | Some m \<Rightarrow> ch_label m) (df_columns df)\<rparr>"

definition parse_emotibit_csv ::
  "(string \<Rightarrow> error + clock) \<Rightarrow> string list \<Rightarrow> json \<Rightarrow> channels \<Rightarrow> error + frame" where
  "parse_emotibit_csv strptime lines device_created_at channels_meta =
     bind (long_records strptime lines device_created_at channels_meta)
       (\<lambda>recs.
          if recs = [] then Inr \<lparr>df_columns = [''timestamp''], df_rows = []\<rparr>
          else bind (wide_table recs) (\<lambda>df_wide. Inr (rename_columns channels_meta df_wide)))"

section \<open>The writer\<close>

fun index_of :: "'a \<Rightarrow> 'a list \<Rightarrow> nat option" where
  "index_of x [] = None"
| "index_of x (y # ys) = (if x = y then Some 0 else map_option Suc (index_of x ys))"

text \<open>\<^verbatim>\<open>device_df["Time"]\<close> as floats, when a column has that label (a table of the
  reshaper has at most one).\<close>

definition time_column :: "frame \<Rightarrow> pyfloat list option" where
  "time_column df =
     (case index_of ''Time'' (df_columns df) of
        None \<Rightarrow> None
      | Some j \<Rightarrow>
          Some (map (\<lambda>r. case j of 0 \<Rightarrow> float_of_int (fst r) | Suc k \<Rightarrow> snd r ! k) (df_rows df)))"

text \<open>The differences of consecutive items; \<^verbatim>\<open>Series.diff\<close> puts a NaN before them.\<close>

fun consecutive_differences :: "pyfloat list \<Rightarrow> pyfloat list" where
  "consecutive_differences (a # b # r) = fsub b a # consecutive_differences (b # r)"
| "consecutive_differences r = []"

definition dropna :: "pyfloat list \<Rightarrow> pyfloat list" where
  "dropna xs = filter (\<lambda>v. v \<noteq> NaN) xs"

fun insert_float :: "pyfloat \<Rightarrow> pyfloat list \<Rightarrow> pyfloat list" where
  "insert_float x [] = [x]"
| "insert_float x (y # ys) = (if fle x y then x # y # ys else y # insert_float x ys)"

definition sort_floats :: "pyfloat list \<Rightarrow> pyfloat list" where
  "sort_floats xs = foldr insert_float xs []"

text \<open>The median of a list of floats without NaN: the middle item of the sorted list, or
  the mean of the two middle items.\<close>

definition median :: "pyfloat list \<Rightarrow> pyfloat" where
  "median xs =
     (let s = sort_floats xs; n = length s in
      if n = 0 then NaN
      else if odd n then s ! (n div 2)
      else fdiv (fadd (s ! (n div 2 - 1)) (s ! (n div 2))) (Finite 2))"

text \<open>Lines 201 to 205: \<^verbatim>\<open>sampling_rate_guess\<close>.\<close>

definition sampling_rate_guess :: "frame \<Rightarrow> error + int" where
  "sampling_rate_guess device_df =
     (case time_column device_df of
        None \<Rightarrow> Inr 0
      | Some time_values \<Rightarrow>
          if 1 < length (df_rows device_df)
          then (let diffs = dropna (NaN # consecutive_differences time_values) in
                if diffs \<noteq> [] \<and> fpositive (median diffs)
                then py_round (fdiv (Finite 1) (median diffs))
                else Inr 0)
          else Inr 0)"

text \<open>The row of \<^verbatim>\<open>metadata.csv\<close>, and what \<^verbatim>\<open>write_yq_folder\<close> puts into the folder
  of a session beside the fixed \<^verbatim>\<open>README.txt\<close>.\<close>

record metadata_row =
  m_recording_id :: string
  m_file_name :: string
  m_device_id :: string
  m_device_name :: json
  m_type :: string
  m_sampling_rate :: int

record folder =
  f_device_csv_name :: string
  f_device_csv :: frame
  f_metadata :: metadata_row

text \<open>\<^verbatim>\<open>device_id.lower()\<close> needs a string; the two derived keys are always present
  in the descriptor \<^verbatim>\<open>load_emotibit_json\<close> returns.\<close>

definition write_yq_folder :: "frame \<Rightarrow> (string \<times> json) list \<Rightarrow> error + folder" where
  "write_yq_folder device_df device_meta =
     (case dict_get device_meta ''__device_id__'' (dict_get device_meta ''device_id'' (JStr ''emotibit_device'')) of
        JStr device_id \<Rightarrow>
          bind (sampling_rate_guess device_df)
            (\<lambda>guess.
               Inr \<lparr>f_device_csv_name = spaces_to_underscores (lower device_id) @ ''_device.csv'',
                    f_device_csv = device_df,
                    f_metadata =
                      \<lparr>m_recording_id = device_id @ '' : device'',
                       m_file_name = spaces_to_underscores (lower device_id) @ ''_device.csv'',
                       m_device_id = device_id,
                       m_device_name =
                         dict_get device_meta ''__device_name__'' (dict_get device_meta ''name'' (JStr ''EmotiBit'')),
                       m_type = ''physio'',
                       m_sampling_rate = guess\<rparr>\<rparr>)
      | _ \<Rightarrow> Inl AttributeError)"

section \<open>The upload handler\<close>

text \<open>
  What the handler reads once the archive is extracted: the directory walk, the metadata
  documents and the lines of the measurement files by path, and the two platform functions.
\<close>

record env =
  env_walk :: walk
  env_json :: "string \<Rightarrow> json option"
  env_csv :: "string \<Rightarrow> string list"
  env_strptime :: "string \<Rightarrow> error + clock"
  env_py_str :: "json \<Rightarrow> string"

text \<open>The body of \<^verbatim>\<open>for sess in sessions\<close>: the folder written for one session.\<close>

definition convert_session :: "env \<Rightarrow> session \<Rightarrow> error + (string \<times> folder)" where
  "convert_session ev sess =
     bind (load_emotibit_json (env_py_str ev) (env_json ev (sess_json sess)))
       (\<lambda>loaded.
          bind (parse_emotibit_csv (env_strptime ev) (env_csv ev (sess_csv sess))
                  (dict_get (fst loaded) ''created_at'' JNull) (snd loaded))
            (\<lambda>df_device.
               bind (write_yq_folder df_device (fst loaded))
                 (\<lambda>out. Inr (sess_name sess, out))))"

text \<open>The loop has no handler of its own: the first exception ends it.\<close>

fun convert_sessions :: "env \<Rightarrow> session list \<Rightarrow> error + (string \<times> folder) list" where
  "convert_sessions ev [] = Inr []"
| "convert_sessions ev (sess # rest) =
     bind (convert_session ev sess)
       (\<lambda>out. bind (convert_sessions ev rest) (\<lambda>outs. Inr (out # outs)))"

text \<open>
  The three ways the handler ends: the message that no pair was found, the error message of
  \<^verbatim>\<open>except Exception\<close> (the temporary directory with every folder written so far is
  removed), or the download of the archive of all session folders.
\<close>

datatype outcome = NoSessions | Failed error | Download "(string \<times> folder) list"

definition handle_upload :: "env \<Rightarrow> outcome" where
  "handle_upload ev =
     (let sessions = find_emotibit_sessions (env_walk ev) in
      if sessions = [] then NoSessions
      else (case convert_sessions ev sessions of
              Inl e \<Rightarrow> Failed e
            | Inr outs \<Rightarrow> Download outs))"

section \<open>Notions of the specification\<close>

text \<open>
  The definitions of this section follow the words of the specification; the theorems
  compare them with the functions above.
\<close>

text \<open>A metadata document that is empty or malformed: a file that \<^verbatim>\<open>json.load\<close> cannot
  decode, or a value that is empty (an empty array, object or string, null, zero, false).\<close>

definition empty_or_malformed :: "json option \<Rightarrow> bool" where
  "empty_or_malformed doc = (case doc of None \<Rightarrow> True | Some data \<Rightarrow> \<not> truthy data)"


text \<open>
  ``round(1 / median(consecutive differences of the Time column)) when at least two rows
  exist and the median difference is positive; otherwise 0'': the median is that of the
  differences that are numbers, and 0 is also the rate of a table without the column.
\<close>

definition spec_sampling_rate :: "frame \<Rightarrow> error + int" where
  "spec_sampling_rate df =
     (case time_column df of
        None \<Rightarrow> Inr 0
      | Some time_values \<Rightarrow>
          if 2 \<le> length (df_rows df)
               \<and> fpositive (median (dropna (consecutive_differences time_values)))
          then py_round (fdiv (Finite 1) (median (dropna (consecutive_differences time_values))))
          else Inr 0)"

text \<open>
  A channel descriptor ``labeled per the name+tag concatenation rule'': one of the given
  stream records lists the tag, and the label is the name of that stream, an underscore
  and the tag, with the spaces removed.
\<close>

definition labelled_from :: "(json \<Rightarrow> string) \<Rightarrow> json list \<Rightarrow> string \<Rightarrow> channel \<Rightarrow> bool" where
  "labelled_from py_str entries tg ch =
     list_ex
       (\<lambda>entry.
          case py_get entry ''info'' (JObj []) of
            Inr (JObj info) \<Rightarrow>
              (case iterate (dict_get info ''typeTags'' (JArr [])) of
                 Inr tags \<Rightarrow>
                   JStr tg \<in> set tags
                   \<and> ch_label ch = remove_spaces (format_value py_str (stream_name info) @ ''_'' @ tg)
               | Inl e \<Rightarrow> False)
          | _ \<Rightarrow> False)
       entries"

section \<open>Example inputs\<close>

text \<open>A metadata document with one device record and one stream record, for the tag
  \<^verbatim>\<open>AA\<close> at the nominal rate 25.\<close>

definition accelerometer_doc :: json where
  "accelerometer_doc =
     JArr [JObj [(''info'', JObj [(''name'', JStr ''EmotiBit'')])],
           JObj [(''info'', JObj [(''name'', JStr ''Accelerometer''),
                                  (''typeTags'', JArr [JStr ''AA'']),
                                  (''nominal_srate'', JInt 25)])]]"

text \<open>An upload with two sessions \<^verbatim>\<open>a\<close> and \<^verbatim>\<open>b\<close>; the metadata document of
  \<^verbatim>\<open>b\<close> is an empty array.\<close>

definition two_session_upload :: env where
  "two_session_upload =
     \<lparr>env_walk = [(''extracted'', [''a_info.json'', ''a.csv'', ''b_info.json'', ''b.csv''])],
      env_json = (\<lambda>path. if path = ''extracted/b_info.json'' then Some (JArr []) else Some accelerometer_doc),
      env_csv = (\<lambda>path. [''1000,x,2,AA,x,x,0.1,0.2'']),
      env_strptime = (\<lambda>s. Inl ValueError),
      env_py_str = (\<lambda>x. [])\<rparr>"


text \<open>The channel descriptors \<^verbatim>\<open>load_emotibit_json\<close> returns for the two documents.\<close>

definition accelerometer_channels :: channels where
  "accelerometer_channels =
     [(''AA'',
       \<lparr>ch_label = ''Accelerometer_AA'', ch_nominal_srate = JInt 25, ch_units = JNull,
        ch_raw_info = [(''name'', JStr ''Accelerometer''), (''typeTags'', JArr [JStr ''AA'']),
                       (''nominal_srate'', JInt 25)]\<rparr>)]"


section \<open>Properties of the session matcher\<close>

lemma head_of_sort_key_is_least:
  fixes f :: "'a \<Rightarrow> nat"
  assumes "sort_key f xs = y # ys" and "c \<in> set xs"
  shows "f y \<le> f c"
proof -
  have "sorted (map f (sort_key f xs))"
    by (rule sorted_sort_key)
  moreover have "c \<in> set (sort_key f xs)"
    using assms(2) by simp
  ultimately show ?thesis
    using assms(1) by auto
qed

lemma pair_sessions_picks_shortest:
  assumes "j \<in> set js" and "base_key_of j = Some k" and "candidates_for cs k \<noteq> []"
  shows "\<exists>s \<in> set (pair_sessions js cs).
           sess_json s = j \<and> sess_name s = k \<and>
           sess_csv s \<in> set (candidates_for cs k) \<and>
           (\<forall>c \<in> set (candidates_for cs k). length (basename (sess_csv s)) \<le> length (basename c))"
  using assms
proof (induction js)
  case Nil
  then show ?case by simp
next
  case (Cons a js)
  show ?case
  proof (cases "a = j")
    case True
    obtain y ys where srt: "sort_key (\<lambda>p. length (basename p)) (candidates_for cs k) = y # ys"
      using Cons.prems(3)
      by (cases "sort_key (\<lambda>p. length (basename p)) (candidates_for cs k)")
         (auto dest: arg_cong[where f = length])
    have y_in: "y \<in> set (candidates_for cs k)"
      using srt by (metis list.set_intros(1) set_sort)
    have y_min: "\<forall>c \<in> set (candidates_for cs k). length (basename y) \<le> length (basename c)"
      using head_of_sort_key_is_least[OF srt] by blast
    show ?thesis
      using True Cons.prems(2) srt y_in y_min by simp
  next
    case False
    then have "j \<in> set js"
      using Cons.prems(1) by simp
    from Cons.IH[OF this Cons.prems(2,3)] obtain s where
      "s \<in> set (pair_sessions js cs)"
      "sess_json s = j \<and> sess_name s = k \<and>
         sess_csv s \<in> set (candidates_for cs k) \<and>
         (\<forall>c \<in> set (candidates_for cs k). length (basename (sess_csv s)) \<le> length (basename c))"
      by blast
    then show ?thesis
      by (auto split: option.splits list.splits)
  qed
qed

text \<open>
  Claim C5. Every metadata candidate that has a base key matched by at least one
  measurement candidate (so also by two or more) is paired, in a session named by the base
  key, with a matching measurement file whose file name is no longer than that of any
  other matching file. With \<^verbatim>\<open>dev001_info.json\<close> and the candidates \<^verbatim>\<open>dev001.csv\<close>
  and \<^verbatim>\<open>dev001_1.csv\<close> in one directory, in either listing order, the matcher selects
  \<^verbatim>\<open>dev001.csv\<close>.
\<close>

theorem matcher_selects_shortest_filename:
  "(\<forall>j k. j \<in> set (all_jsons w) \<and> base_key_of j = Some k \<and> candidates_for (all_csvs w) k \<noteq> [] \<longrightarrow>
      (\<exists>s \<in> set (find_emotibit_sessions w).
         sess_json s = j \<and> sess_name s = k \<and>
         sess_csv s \<in> set (candidates_for (all_csvs w) k) \<and>
         (\<forall>c \<in> set (candidates_for (all_csvs w) k).
            length (basename (sess_csv s)) \<le> length (basename c))))
   \<and> find_emotibit_sessions [(''extracted'', [''dev001_info.json'', ''dev001.csv'', ''dev001_1.csv''])]
       = [\<lparr>sess_json = ''extracted/dev001_info.json'', sess_csv = ''extracted/dev001.csv'',
           sess_name = ''dev001''\<rparr>]
   \<and> find_emotibit_sessions [(''extracted'', [''dev001_1.csv'', ''dev001.csv'', ''dev001_info.json''])]
       = [\<lparr>sess_json = ''extracted/dev001_info.json'', sess_csv = ''extracted/dev001.csv'',
           sess_name = ''dev001''\<rparr>]"
proof (intro conjI allI impI)
  fix j k
  assume "j \<in> set (all_jsons w) \<and> base_key_of j = Some k \<and> candidates_for (all_csvs w) k \<noteq> []"
  then show "\<exists>s \<in> set (find_emotibit_sessions w).
         sess_json s = j \<and> sess_name s = k \<and>
         sess_csv s \<in> set (candidates_for (all_csvs w) k) \<and>
         (\<forall>c \<in> set (candidates_for (all_csvs w) k).
            length (basename (sess_csv s)) \<le> length (basename c))"
    unfolding find_emotibit_sessions_def
    using pair_sessions_picks_shortest[of j "all_jsons w" k "all_csvs w"] by blast
next
  show "find_emotibit_sessions [(''extracted'', [''dev001_info.json'', ''dev001.csv'', ''dev001_1.csv''])]
       = [\<lparr>sess_json = ''extracted/dev001_info.json'', sess_csv = ''extracted/dev001.csv'',
           sess_name = ''dev001''\<rparr>]"
    by code_simp
next
  show "find_emotibit_sessions [(''extracted'', [''dev001_1.csv'', ''dev001.csv'', ''dev001_info.json''])]
       = [\<lparr>sess_json = ''extracted/dev001_info.json'', sess_csv = ''extracted/dev001.csv'',
           sess_name = ''dev001''\<rparr>]"
    by code_simp
qed

theorem matcher_selects_shortest_filename_witness:
  "\<exists>s \<in> set (find_emotibit_sessions
                [(''extracted/a'', [''dev001_1.csv'', ''dev001_info.json'']),
                 (''extracted/b'', [''dev001.csv'', ''dev001_22.csv''])]).
     sess_json s = ''extracted/a/dev001_info.json'' \<and> sess_name s = ''dev001'' \<and>
     sess_csv s \<in> set (candidates_for
                        (all_csvs [(''extracted/a'', [''dev001_1.csv'', ''dev001_info.json'']),
                                   (''extracted/b'', [''dev001.csv'', ''dev001_22.csv''])]) ''dev001'') \<and>
     length (basename (sess_csv s)) \<le> length ''dev001.csv''"
proof -
  let ?w = "[(''extracted/a'', [''dev001_1.csv'', ''dev001_info.json'']),
             (''extracted/b'', [''dev001.csv'', ''dev001_22.csv''])]"
  have h1: "''extracted/a/dev001_info.json'' \<in> set (all_jsons ?w)"
    by code_simp
  have h2: "base_key_of ''extracted/a/dev001_info.json'' = Some ''dev001''"
    by code_simp
  have h3: "candidates_for (all_csvs ?w) ''dev001'' \<noteq> []"
    by code_simp
  have h4: "''extracted/b/dev001.csv'' \<in> set (candidates_for (all_csvs ?w) ''dev001'')"
    by code_simp
  have h5: "basename ''extracted/b/dev001.csv'' = ''dev001.csv''"
    by code_simp
  from matcher_selects_shortest_filename[of ?w] h1 h2 h3
  obtain s where s: "s \<in> set (find_emotibit_sessions ?w)"
    "sess_json s = ''extracted/a/dev001_info.json''" "sess_name s = ''dev001''"
    "sess_csv s \<in> set (candidates_for (all_csvs ?w) ''dev001'')"
    "\<forall>c \<in> set (candidates_for (all_csvs ?w) ''dev001'').
        length (basename (sess_csv s)) \<le> length (basename c)"
    by blast
  from s(5) h4 h5 have "length (basename (sess_csv s)) \<le> length ''dev001.csv''"
    by metis
  with s(1-4) show ?thesis
    by blast
qed

section \<open>Properties of the reshaper\<close>

subsection \<open>Results and errors\<close>

lemma bind_eq_Inr: "bind m f = Inr y \<longleftrightarrow> (\<exists>x. m = Inr x \<and> f x = Inr y)"
  by (cases m) (simp_all add: bind_def)

lemma bind_Inl [simp]: "bind (Inl e) f = Inl e"
  by (simp add: bind_def)

lemma bind_Inr [simp]: "bind (Inr x) f = f x"
  by (simp add: bind_def)

lemma emit_samples_length:
  "emit_samples b sr tg i vs = Inr recs \<Longrightarrow> length recs \<le> length vs"
proof (induction vs arbitrary: i recs)
  case Nil
  then show ?case by simp
next
  case (Cons v vs)
  show ?case
  proof (cases "py_float v")
    case None
    with Cons.prems have "emit_samples b sr tg (Suc i) vs = Inr recs" by simp
    from Cons.IH[OF this] show ?thesis by simp
  next
    case (Some x)
    with Cons.prems obtain off rest where
      "emit_samples b sr tg (Suc i) vs = Inr rest" "recs = \<lparr>r_timestamp = b + off, r_tag = tg, r_value = x\<rparr> # rest"
      by (auto simp: bind_eq_Inr)
    with Cons.IH[of "Suc i" rest] show ?thesis by simp
  qed
qed

lemma emit_samples_member:
  assumes "emit_samples b sr tg i vs = Inr recs" and "r \<in> set recs"
  shows "\<exists>k off. k < length vs \<and> py_float (vs ! k) = Some (r_value r) \<and>
           sample_offset (i + k) sr = Inr off \<and> r_timestamp r = b + off \<and> r_tag r = tg"
  using assms
proof (induction vs arbitrary: i recs)
  case Nil
  then show ?case by simp
next
  case (Cons v vs)
  show ?case
  proof (cases "py_float v")
    case None
    with Cons.prems have "emit_samples b sr tg (Suc i) vs = Inr recs" by simp
    from Cons.IH[OF this Cons.prems(2)] obtain k off where
      "k < length vs" "py_float (vs ! k) = Some (r_value r)"
      "sample_offset (Suc i + k) sr = Inr off" "r_timestamp r = b + off" "r_tag r = tg"
      by blast
    then have "Suc k < length (v # vs) \<and> py_float ((v # vs) ! Suc k) = Some (r_value r) \<and>
           sample_offset (i + Suc k) sr = Inr off \<and> r_timestamp r = b + off \<and> r_tag r = tg"
      by simp
    then show ?thesis by blast
  next
    case (Some x)
    with Cons.prems obtain off rest where
      off: "sample_offset i sr = Inr off" and
      rest: "emit_samples b sr tg (Suc i) vs = Inr rest" and
      recs: "recs = \<lparr>r_timestamp = b + off, r_tag = tg, r_value = x\<rparr> # rest"
      by (auto simp: bind_eq_Inr)
    show ?thesis
    proof (cases "r \<in> set rest")
      case True
      from Cons.IH[OF rest True] obtain k off' where
        "k < length vs" "py_float (vs ! k) = Some (r_value r)"
        "sample_offset (Suc i + k) sr = Inr off'" "r_timestamp r = b + off'" "r_tag r = tg"
        by blast
      then have "Suc k < length (v # vs) \<and> py_float ((v # vs) ! Suc k) = Some (r_value r) \<and>
           sample_offset (i + Suc k) sr = Inr off' \<and> r_timestamp r = b + off' \<and> r_tag r = tg"
        by simp
      then show ?thesis by blast
    next
      case False
      with Cons.prems(2) recs have "r = \<lparr>r_timestamp = b + off, r_tag = tg, r_value = x\<rparr>"
        by simp
      then have "0 < length (v # vs) \<and> py_float ((v # vs) ! 0) = Some (r_value r) \<and>
           sample_offset (i + 0) sr = Inr off \<and> r_timestamp r = b + off \<and> r_tag r = tg"
        using Some off by simp
      then show ?thesis by blast
    qed
  qed
qed

lemma slice_to_length: "length (slice_to n xs) \<le> length xs"
  by (simp add: slice_to_def)

lemma slice_to_length_nonneg: "0 \<le> n \<Longrightarrow> length (slice_to n xs) \<le> nat n"
  by (simp add: slice_to_def)

lemma slice_to_nth: "k < length (slice_to n xs) \<Longrightarrow> slice_to n xs ! k = xs ! k"
  by (simp add: slice_to_def split: if_splits)

lemma line_records_cases:
  assumes "line_records base_dt channels_meta raw = Inr recs" and "recs \<noteq> []"
  shows "\<exists>system_ms ch_meta b.
           7 \<le> length (split_on CHR '','' (strip raw)) \<and>
           py_int (map strip (split_on CHR '','' (strip raw)) ! 0) = Some system_ms \<and>
           map_of channels_meta (map strip (split_on CHR '','' (strip raw)) ! 3) = Some ch_meta \<and>
           (case base_dt of None \<Rightarrow> Inr system_ms | Some c \<Rightarrow> c system_ms) = Inr b \<and>
           emit_samples b (py_or (ch_nominal_srate ch_meta) (JFloat (Finite 25)))
             (map strip (split_on CHR '','' (strip raw)) ! 3) 0
             (slice_to (case py_int (map strip (split_on CHR '','' (strip raw)) ! 2) of None \<Rightarrow> 1 | Some n \<Rightarrow> n)
                (drop 6 (map strip (split_on CHR '','' (strip raw))))) = Inr recs"
  using assms
  by (auto simp: line_records_def Let_def bind_eq_Inr split: if_splits option.splits)

lemma line_records_bound:
  assumes "line_records base_dt channels_meta raw = Inr recs"
  shows "length recs \<le> length (split_on CHR '','' (strip raw)) - 6"
proof (cases "recs = []")
  case True
  then show ?thesis by simp
next
  case False
  from line_records_cases[OF assms False] obtain b sr tg n where
    "emit_samples b sr tg 0 (slice_to n (drop 6 (map strip (split_on CHR '','' (strip raw))))) = Inr recs"
    by blast
  from emit_samples_length[OF this] have "length recs \<le> length (slice_to n (drop 6 (map strip (split_on CHR '','' (strip raw)))))" .
  also have "\<dots> \<le> length (drop 6 (map strip (split_on CHR '','' (strip raw))))"
    by (rule slice_to_length)
  finally show ?thesis by simp
qed

subsection \<open>Floats that are not negative\<close>

lemma two_to_pos: "0 < two_to e"
proof (induction e rule: two_to.induct)
  case (1 e)
  show ?case
  proof (cases "e \<le> 0")
    case True
    then show ?thesis by (simp add: two_to.simps)
  next
    case False
    with 1 have "0 < two_to (e div 2)" by simp
    then show ?thesis
      using False by (subst two_to.simps) (simp add: Let_def)
  qed
qed

lemma pow2_pos: "0 < pow2 e"
  by (simp add: pow2_def two_to_pos)

lemma round_half_even_nonneg: "0 \<le> x \<Longrightarrow> 0 \<le> round_half_even x"
  by (auto simp: round_half_even_def Let_def)

lemma round_double_nonneg:
  assumes "0 \<le> x" and "round_double x = Finite y"
  shows "0 \<le> y"
proof (cases "x = 0")
  case True
  with assms(2) show ?thesis by (simp add: round_double_def)
next
  case False
  with assms(1) have pos: "0 < x" by simp
  define u where "u = pow2 (max (ilog2 \<bar>x\<bar>) (- 1022) - 52)"
  have u: "0 < u" by (simp add: u_def pow2_pos)
  have "0 \<le> \<bar>x\<bar> / u" using u by simp
  then have m: "0 \<le> round_half_even (\<bar>x\<bar> / u)" by (rule round_half_even_nonneg)
  from assms(2) pos have "y = of_int (round_half_even (\<bar>x\<bar> / u)) * u"
    by (simp add: round_double_def Let_def u_def split: if_splits)
  with m u show ?thesis by simp
qed

lemma fmul_Finite:
  "fmul a b = Finite y \<Longrightarrow> \<exists>p q. a = Finite p \<and> b = Finite q \<and> round_double (p * q) = Finite y"
  by (cases a; cases b) (auto simp: fmul_def signed_inf_def split: if_splits)

lemma fdiv_Finite_nonneg:
  assumes "fdiv a d = Finite y" and "a = Finite p" and "0 \<le> p" and "fpositive d"
  shows "0 \<le> y"
proof (cases d)
  case (Finite q)
  with assms(4) have "0 < q" by (simp add: fpositive_def)
  with assms(3) have "0 \<le> p / q" by simp
  moreover from assms(1,2) Finite have "round_double (p / q) = Finite y"
    by (simp add: fdiv_def)
  ultimately show ?thesis by (rule round_double_nonneg)
next
  case PosInf
  with assms(1,2) show ?thesis by (simp add: fdiv_def)
next
  case NegInf
  with assms(4) show ?thesis by (simp add: fpositive_def)
next
  case NaN
  with assms(4) show ?thesis by (simp add: fpositive_def)
qed

lemma int_to_float_nonneg:
  assumes "int_to_float n = Inr a" and "0 \<le> n"
  shows "\<exists>p. a = Finite p \<and> 0 \<le> p"
proof -
  from assms(1) have a: "a = float_of_int n" and fin: "is_finite (float_of_int n)"
    by (auto simp: int_to_float_def split: if_splits)
  from fin obtain p where p: "float_of_int n = Finite p"
    by (cases "float_of_int n") (auto simp: is_finite_def)
  then have "round_double (of_int n) = Finite p" by (simp add: float_of_int_def)
  moreover have "(0::rat) \<le> of_int n" using assms(2) by simp
  ultimately have "0 \<le> p" by (rule round_double_nonneg[rotated])
  with a p show ?thesis by simp
qed

lemma offset_ms_nonneg:
  assumes "offset_ms idx sr = Inr (Finite x)" and "as_divisor sr = Inr d" and "fpositive d"
  shows "0 \<le> x"
proof -
  from assms(1,2) obtain i q where
    i: "int_to_float (int idx) = Inr i" and
    q: "py_truediv (fmul i (Finite 1)) d = Inr q" and
    x: "fmul q (Finite 1000) = Finite x"
    by (auto simp: offset_ms_def bind_eq_Inr)
  from int_to_float_nonneg[OF i] obtain p where p: "i = Finite p" "0 \<le> p" by auto
  from x obtain q' where q': "q = Finite q'" "round_double (q' * 1000) = Finite x"
    by (auto dest: fmul_Finite)
  from q have qd: "fdiv (fmul i (Finite 1)) d = Finite q'"
    using q'(1) by (auto simp: py_truediv_def split: if_splits)
  have "\<exists>p1. fmul i (Finite 1) = Finite p1 \<and> 0 \<le> p1"
  proof (cases "fmul i (Finite 1)")
    case (Finite p1)
    then have "round_double (p * 1) = Finite p1" using p(1) by (simp add: fmul_def)
    then have "0 \<le> p1" using p(2) round_double_nonneg[of "p * 1" p1] by simp
    with Finite show ?thesis by simp
  next
    case PosInf
    with qd assms(3) show ?thesis by (cases d) (auto simp: fdiv_def signed_inf_def fsign_def fpositive_def split: if_splits)
  next
    case NegInf
    with qd assms(3) show ?thesis by (cases d) (auto simp: fdiv_def signed_inf_def fsign_def fpositive_def split: if_splits)
  next
    case NaN
    with qd show ?thesis by (simp add: fdiv_def)
  qed
  then obtain p1 where p1: "fmul i (Finite 1) = Finite p1" "0 \<le> p1" by blast
  from fdiv_Finite_nonneg[OF qd[unfolded p1(1)] refl p1(2) assms(3)] have "0 \<le> q'" .
  then have "0 \<le> q' * 1000" by simp
  then show ?thesis using q'(2) by (rule round_double_nonneg)
qed

lemma sample_offset_Finite:
  "sample_offset idx sr = Inr off \<Longrightarrow> \<exists>x. offset_ms idx sr = Inr (Finite x) \<and> off = trunc_toward_zero x"
proof -
  assume "sample_offset idx sr = Inr off"
  then obtain y where y: "offset_ms idx sr = Inr y" "int_of_float y = Inr off"
    by (auto simp: sample_offset_def bind_eq_Inr)
  then show ?thesis
    by (cases y) (auto simp: int_of_float_def)
qed

lemma trunc_nonneg:
  "0 \<le> x \<Longrightarrow> trunc_toward_zero x = \<lfloor>x\<rfloor> \<and> of_int (trunc_toward_zero x) \<le> x \<and> x < of_int (trunc_toward_zero x) + 1"
  by (simp add: trunc_toward_zero_def) linarith

subsection \<open>The accelerometer scenario\<close>

lemma strip_example_line:
  "strip ''1000,x,2,AA,x,x,0.1,0.2'' = ''1000,x,2,AA,x,x,0.1,0.2''"
  by code_simp

lemma fields_example_line:
  "map strip (split_on CHR '','' ''1000,x,2,AA,x,x,0.1,0.2'')
     = [''1000'', ''x'', ''2'', ''AA'', ''x'', ''x'', ''0.1'', ''0.2'']"
  by code_simp

lemma py_int_1000: "py_int ''1000'' = Some 1000"
  by code_simp

lemma py_int_2: "py_int ''2'' = Some 2"
  by code_simp

lemma double_0_1: "round_double (1 / 10) = Finite (3602879701896397 / 36028797018963968)"
  by code_simp

lemma double_0_2: "round_double (1 / 5) = Finite (3602879701896397 / 18014398509481984)"
  by code_simp

lemma py_float_0_1: "py_float ''0.1'' = Some (Finite (3602879701896397 / 36028797018963968))"
  by code_simp

lemma py_float_0_2: "py_float ''0.2'' = Some (Finite (3602879701896397 / 18014398509481984))"
  by code_simp

lemma sample_offset_0_at_25: "sample_offset 0 (JInt 25) = Inr 0"
  by code_simp

lemma sample_offset_1_at_25: "sample_offset (Suc 0) (JInt 25) = Inr 40"
  by code_simp

lemma sample_offset_0_at_25_float: "sample_offset 0 (JFloat (Finite 25)) = Inr 0"
  by code_simp

lemma sample_offset_1_at_25_float: "sample_offset (Suc 0) (JFloat (Finite 25)) = Inr 40"
  by code_simp

lemma example_line_records:
  assumes "map_of channels_meta ''AA'' = Some ch"
    and "ch_nominal_srate ch = JInt 25 \<or> ch_nominal_srate ch = JFloat (Finite 25)"
  shows "line_records None channels_meta ''1000,x,2,AA,x,x,0.1,0.2''
       = Inr [\<lparr>r_timestamp = 1000, r_tag = ''AA'', r_value = Finite (3602879701896397 / 36028797018963968)\<rparr>,
              \<lparr>r_timestamp = 1040, r_tag = ''AA'', r_value = Finite (3602879701896397 / 18014398509481984)\<rparr>]"
  unfolding line_records_def Let_def strip_example_line fields_example_line
  using assms
  by (auto simp: Let_def py_int_1000 py_int_2 py_float_0_1 py_float_0_2
        sample_offset_0_at_25 sample_offset_1_at_25
        sample_offset_0_at_25_float sample_offset_1_at_25_float slice_to_def py_or_def)

lemma example_wide_table:
  "wide_table
     [\<lparr>r_timestamp = 1000, r_tag = ''AA'', r_value = Finite (3602879701896397 / 36028797018963968)\<rparr>,
      \<lparr>r_timestamp = 1040, r_tag = ''AA'', r_value = Finite (3602879701896397 / 18014398509481984)\<rparr>]
   = Inr \<lparr>df_columns = [''timestamp'', ''Time'', ''AA''],
          df_rows =
            [(1000, [Finite 0, Finite (3602879701896397 / 36028797018963968)]),
             (1040, [Finite (5764607523034235 / 144115188075855872),
                     Finite (3602879701896397 / 18014398509481984)])]\<rparr>"
  by code_simp

text \<open>
  Claim C1. Let the channel descriptors hold the tag \<^verbatim>\<open>AA\<close> with the label
  \<^verbatim>\<open>Accelerometer_AA\<close> and the nominal rate 25 (the integer or the float), and let the
  recording start be unset (a falsy \<^verbatim>\<open>created_at\<close>). From the one line \<^verbatim>\<open>1000,x,2,AA,x,x,0.1,0.2\<close> the
  reshaper emits exactly two long records, at 1000 ms with the float 0.1 and at 1040 ms with
  the float 0.2; the wide table has three columns, the third of them named
  \<^verbatim>\<open>Accelerometer_AA\<close>, and the two rows of these timestamps and values.
\<close>

theorem accelerometer_scenario:
  assumes "map_of channels_meta ''AA'' = Some ch"
    and "ch_label ch = ''Accelerometer_AA''"
    and "ch_nominal_srate ch = JInt 25 \<or> ch_nominal_srate ch = JFloat (Finite 25)"
    and "\<not> truthy device_created_at"
  shows "long_records strptime [''1000,x,2,AA,x,x,0.1,0.2''] device_created_at channels_meta
           = Inr [\<lparr>r_timestamp = 1000, r_tag = ''AA'', r_value = round_double (1 / 10)\<rparr>,
                  \<lparr>r_timestamp = 1040, r_tag = ''AA'', r_value = round_double (2 / 10)\<rparr>]
         \<and> (\<exists>df. parse_emotibit_csv strptime [''1000,x,2,AA,x,x,0.1,0.2''] device_created_at channels_meta = Inr df
                \<and> length (df_columns df) = 3
                \<and> df_columns df ! 2 = ''Accelerometer_AA''
                \<and> df_rows df =
                    [(1000, [Finite 0, round_double (1 / 10)]),
                     (1040, [round_double (40 / 1000), round_double (2 / 10)])])"
proof -
  have recs: "long_records strptime [''1000,x,2,AA,x,x,0.1,0.2''] device_created_at channels_meta
           = Inr [\<lparr>r_timestamp = 1000, r_tag = ''AA'', r_value = Finite (3602879701896397 / 36028797018963968)\<rparr>,
                  \<lparr>r_timestamp = 1040, r_tag = ''AA'', r_value = Finite (3602879701896397 / 18014398509481984)\<rparr>]"
    using assms(4) example_line_records[OF assms(1,3)]
    by (simp add: long_records_def resolve_start_def)
  have t: "round_double (1 / 25) = Finite (5764607523034235 / 144115188075855872)"
    by code_simp
  have "parse_emotibit_csv strptime [''1000,x,2,AA,x,x,0.1,0.2''] device_created_at channels_meta
      = Inr (rename_columns channels_meta
          \<lparr>df_columns = [''timestamp'', ''Time'', ''AA''],
           df_rows =
            [(1000, [Finite 0, Finite (3602879701896397 / 36028797018963968)]),
             (1040, [Finite (5764607523034235 / 144115188075855872),
                     Finite (3602879701896397 / 18014398509481984)])]\<rparr>)"
    by (simp add: parse_emotibit_csv_def recs example_wide_table)
  then show ?thesis
    using recs assms(1,2) by (simp add: rename_columns_def double_0_1 double_0_2 t)
qed

theorem accelerometer_scenario_witness:
  "\<exists>df. parse_emotibit_csv (\<lambda>s. Inl ValueError) [''1000,x,2,AA,x,x,0.1,0.2''] JNull
          [(''AA'', \<lparr>ch_label = ''Accelerometer_AA'', ch_nominal_srate = JInt 25,
                     ch_units = JNull, ch_raw_info = []\<rparr>)] = Inr df
      \<and> df_columns df ! 2 = ''Accelerometer_AA''
      \<and> map fst (df_rows df) = [1000, 1040]"
proof -
  let ?ch = "\<lparr>ch_label = ''Accelerometer_AA'', ch_nominal_srate = JInt 25,
               ch_units = JNull, ch_raw_info = []\<rparr>"
  have h1: "map_of [(''AA'', ?ch)] ''AA'' = Some ?ch" by simp
  have h2: "ch_label ?ch = ''Accelerometer_AA''" by simp
  have h3: "ch_nominal_srate ?ch = JInt 25 \<or> ch_nominal_srate ?ch = JFloat (Finite 25)" by simp
  have h4: "\<not> truthy JNull" by simp
  from accelerometer_scenario[OF h1 h2 h3 h4, of "\<lambda>s. Inl ValueError"]
  show ?thesis by auto
qed

subsection \<open>The samples of one line\<close>

text \<open>
  Claim C10. A line that is processed to its end adds at most \<open>p - 6\<close> long records, where
  \<open>p\<close> is the number of its comma-separated fields (for \<open>p < 7\<close> the bound says that it
  adds none), whatever its field 2 declares: an over-large, unparseable or negative count
  included. Every record carries the value of one of the fields 6 to \<open>p - 1\<close> of the line;
  nothing is read past its end. (A line on which the function raises adds no record at
  all.)
\<close>

theorem records_per_line_bounded:
  assumes "line_records base_dt channels_meta raw = Inr recs"
  shows "length recs \<le> length (split_on CHR '','' (strip raw)) - 6
       \<and> (\<forall>r \<in> set recs. \<exists>k. 6 + k < length (split_on CHR '','' (strip raw))
              \<and> py_float (map strip (split_on CHR '','' (strip raw)) ! (6 + k)) = Some (r_value r))"
proof
  show "length recs \<le> length (split_on CHR '','' (strip raw)) - 6"
    using assms by (rule line_records_bound)
next
  show "\<forall>r \<in> set recs. \<exists>k. 6 + k < length (split_on CHR '','' (strip raw))
              \<and> py_float (map strip (split_on CHR '','' (strip raw)) ! (6 + k)) = Some (r_value r)"
  proof
    fix r assume r: "r \<in> set recs"
    let ?parts = "map strip (split_on CHR '','' (strip raw))"
    from r have ne: "recs \<noteq> []" by auto
    from line_records_cases[OF assms ne] obtain b sr tg n where
      em: "emit_samples b sr tg 0 (slice_to n (drop 6 ?parts)) = Inr recs"
      by blast
    from emit_samples_member[OF em r] obtain k where
      k: "k < length (slice_to n (drop 6 ?parts))"
         "py_float (slice_to n (drop 6 ?parts) ! k) = Some (r_value r)"
      by blast
    from k(1) slice_to_length[of n "drop 6 ?parts"] have kd: "k < length (drop 6 ?parts)"
      by linarith
    then have k6: "6 + k < length (split_on CHR '','' (strip raw))" by simp
    have "slice_to n (drop 6 ?parts) ! k = drop 6 ?parts ! k"
      using k(1) by (rule slice_to_nth)
    also have "\<dots> = ?parts ! (6 + k)"
      using k6 by simp
    finally have "py_float (?parts ! (6 + k)) = Some (r_value r)"
      using k(2) by simp
    with k6 show "\<exists>k. 6 + k < length (split_on CHR '','' (strip raw))
              \<and> py_float (?parts ! (6 + k)) = Some (r_value r)"
      by blast
  qed
qed

lemma fields_overlarge_line:
  "map strip (split_on CHR '','' ''1000,x,99,AA,x,x,0.1,0.2'')
     = [''1000'', ''x'', ''99'', ''AA'', ''x'', ''x'', ''0.1'', ''0.2'']
   \<and> strip ''1000,x,99,AA,x,x,0.1,0.2'' = ''1000,x,99,AA,x,x,0.1,0.2''
   \<and> length (split_on CHR '','' ''1000,x,99,AA,x,x,0.1,0.2'') = 8
   \<and> py_int ''99'' = Some 99"
  by code_simp

theorem records_per_line_bounded_witness:
  "\<exists>recs. line_records None
       [(''AA'', \<lparr>ch_label = ''Accelerometer_AA'', ch_nominal_srate = JInt 25,
                  ch_units = JNull, ch_raw_info = []\<rparr>)]
       ''1000,x,99,AA,x,x,0.1,0.2'' = Inr recs
     \<and> length recs = 2
     \<and> length recs \<le> length (split_on CHR '','' (strip ''1000,x,99,AA,x,x,0.1,0.2'')) - 6"
proof -
  let ?chans = "[(''AA'', \<lparr>ch_label = ''Accelerometer_AA'', ch_nominal_srate = JInt 25,
                  ch_units = JNull, ch_raw_info = []\<rparr>)]"
  have e: "line_records None ?chans ''1000,x,99,AA,x,x,0.1,0.2''
       = Inr [\<lparr>r_timestamp = 1000, r_tag = ''AA'', r_value = Finite (3602879701896397 / 36028797018963968)\<rparr>,
              \<lparr>r_timestamp = 1040, r_tag = ''AA'', r_value = Finite (3602879701896397 / 18014398509481984)\<rparr>]"
    unfolding line_records_def Let_def
    by (simp add: fields_overlarge_line py_int_1000 py_float_0_1 py_float_0_2
          sample_offset_0_at_25 sample_offset_1_at_25 slice_to_def py_or_def del: split_on.simps)
  from records_per_line_bounded[OF e] show ?thesis
    using e by simp
qed

lemma fields_negative_count_line:
  "map strip (split_on CHR '','' ''1000,x,-1,AA,x,x,0.1,0.2,0.3'')
     = [''1000'', ''x'', ''-1'', ''AA'', ''x'', ''x'', ''0.1'', ''0.2'', ''0.3'']
   \<and> strip ''1000,x,-1,AA,x,x,0.1,0.2,0.3'' = ''1000,x,-1,AA,x,x,0.1,0.2,0.3''
   \<and> py_int ''-1'' = Some (- 1)"
  by code_simp

lemma fields_five_values_line:
  "map strip (split_on CHR '','' ''1000,x,2,AA,x,x,0.1,0.2,0.3,0.4,0.5'')
     = [''1000'', ''x'', ''2'', ''AA'', ''x'', ''x'', ''0.1'', ''0.2'', ''0.3'', ''0.4'', ''0.5'']
   \<and> strip ''1000,x,2,AA,x,x,0.1,0.2,0.3,0.4,0.5'' = ''1000,x,2,AA,x,x,0.1,0.2,0.3,0.4,0.5''"
  by code_simp

text \<open>A declared count that is not negative bounds the samples of the line: no sample
  whose index is at or beyond it is emitted.\<close>

lemma declared_count_respected:
  assumes "line_records base_dt channels_meta raw = Inr recs"
    and "py_int (map strip (split_on CHR '','' (strip raw)) ! 2) = Some n"
    and "0 \<le> n"
  shows "length recs \<le> nat n
       \<and> (\<forall>r \<in> set recs. \<exists>k. int k < n \<and> 6 + k < length (split_on CHR '','' (strip raw))
              \<and> py_float (map strip (split_on CHR '','' (strip raw)) ! (6 + k)) = Some (r_value r))"
proof (cases "recs = []")
  case True
  then show ?thesis by simp
next
  case False
  let ?parts = "map strip (split_on CHR '','' (strip raw))"
  from line_records_cases[OF assms(1) False] assms(2) obtain b sr tg where
    em: "emit_samples b sr tg 0 (slice_to n (drop 6 ?parts)) = Inr recs"
    by auto
  have len: "length recs \<le> nat n"
    using emit_samples_length[OF em] slice_to_length_nonneg[OF assms(3), of "drop 6 ?parts"]
    by linarith
  have "\<exists>k. int k < n \<and> 6 + k < length (split_on CHR '','' (strip raw))
              \<and> py_float (?parts ! (6 + k)) = Some (r_value r)" if r: "r \<in> set recs" for r
  proof -
    from emit_samples_member[OF em r] obtain k where
      k: "k < length (slice_to n (drop 6 ?parts))"
         "py_float (slice_to n (drop 6 ?parts) ! k) = Some (r_value r)"
      by blast
    from k(1) slice_to_length_nonneg[OF assms(3), of "drop 6 ?parts"] have kn: "int k < n"
      by linarith
    from k(1) slice_to_length[of n "drop 6 ?parts"] have "k < length (drop 6 ?parts)"
      by linarith
    then have k6: "6 + k < length (split_on CHR '','' (strip raw))" by simp
    have "slice_to n (drop 6 ?parts) ! k = drop 6 ?parts ! k"
      using k(1) by (rule slice_to_nth)
    also have "\<dots> = ?parts ! (6 + k)"
      using k6 by simp
    finally have "py_float (?parts ! (6 + k)) = Some (r_value r)"
      using k(2) by simp
    with kn k6 show ?thesis by blast
  qed
  with len show ?thesis by blast
qed

text \<open>With five value fields and a declared count of 2, exactly the first two values are
  emitted.\<close>

lemma five_values_declared_two:
  "line_records None
     [(''AA'', \<lparr>ch_label = ''Accelerometer_AA'', ch_nominal_srate = JInt 25,
                ch_units = JNull, ch_raw_info = []\<rparr>)]
     ''1000,x,2,AA,x,x,0.1,0.2,0.3,0.4,0.5''
   = Inr [\<lparr>r_timestamp = 1000, r_tag = ''AA'', r_value = Finite (3602879701896397 / 36028797018963968)\<rparr>,
          \<lparr>r_timestamp = 1040, r_tag = ''AA'', r_value = Finite (3602879701896397 / 18014398509481984)\<rparr>]"
  unfolding line_records_def Let_def
  by (simp add: fields_five_values_line py_int_1000 py_int_2 py_float_0_1 py_float_0_2
        sample_offset_0_at_25 sample_offset_1_at_25 slice_to_def py_or_def del: split_on.simps)

text \<open>
  Claim C8. No sample whose index is at or beyond the declared sample count of its line is
  emitted. The code does not keep this for a negative count: \<^verbatim>\<open>values[:n_samples]\<close> then
  drops values from the end of the line instead of taking none. With the declared count -1
  and three value fields the samples of index 0 and 1 are emitted.
\<close>

theorem negative_count_emits_samples:
  "py_int ''-1'' = Some (- 1)
   \<and> line_records None
       [(''AA'', \<lparr>ch_label = ''Accelerometer_AA'', ch_nominal_srate = JInt 25,
                  ch_units = JNull, ch_raw_info = []\<rparr>)]
       ''1000,x,-1,AA,x,x,0.1,0.2,0.3''
     = Inr [\<lparr>r_timestamp = 1000, r_tag = ''AA'', r_value = Finite (3602879701896397 / 36028797018963968)\<rparr>,
            \<lparr>r_timestamp = 1040, r_tag = ''AA'', r_value = Finite (3602879701896397 / 18014398509481984)\<rparr>]"
  unfolding line_records_def Let_def
  by (simp add: fields_negative_count_line py_int_1000 py_float_0_1 py_float_0_2
        sample_offset_0_at_25 sample_offset_1_at_25 slice_to_def py_or_def del: split_on.simps)

lemma offset_ms_formula:
  assumes "offset_ms idx sr = Inr y" and "as_divisor sr = Inr d"
  shows "d \<noteq> Finite 0 \<and> is_finite (float_of_int (int idx))
       \<and> y = fmul (fdiv (fmul (float_of_int (int idx)) (Finite 1)) d) (Finite 1000)"
  using assms
  by (auto simp: offset_ms_def bind_eq_Inr int_to_float_def py_truediv_def split: if_splits)

text \<open>
  Claim C9. A long record emitted by the sample loop for the base timestamp \<open>b\<close>, the sample
  index \<open>i\<close> and a positive sample rate has the timestamp \<open>b\<close> plus the offset
  \<^verbatim>\<open>(i * 1.0 / sr) * 1000.0\<close>, a binary64 number \<open>x\<close> that is not negative,
  truncated toward zero: the fraction of \<open>x\<close> is dropped, not rounded, so the stored offset
  is at most \<open>x\<close> and less than one millisecond below it.
\<close>

theorem sample_timestamp_truncates:
  assumes "emit_samples base_ts_ms sr tg i0 vs = Inr recs"
    and "r \<in> set recs"
    and "as_divisor sr = Inr d"
    and "fpositive d"
  shows "\<exists>k x. k < length vs \<and> py_float (vs ! k) = Some (r_value r)
           \<and> fmul (fdiv (fmul (float_of_int (int (i0 + k))) (Finite 1)) d) (Finite 1000) = Finite x
           \<and> 0 \<le> x
           \<and> r_timestamp r = base_ts_ms + trunc_toward_zero x
           \<and> trunc_toward_zero x = \<lfloor>x\<rfloor>
           \<and> of_int (r_timestamp r - base_ts_ms) \<le> x
           \<and> x < of_int (r_timestamp r - base_ts_ms) + 1"
proof -
  from emit_samples_member[OF assms(1,2)] obtain k off where
    k: "k < length vs" "py_float (vs ! k) = Some (r_value r)" and
    off: "sample_offset (i0 + k) sr = Inr off" and
    ts: "r_timestamp r = base_ts_ms + off"
    by blast
  from sample_offset_Finite[OF off] obtain x where
    x: "offset_ms (i0 + k) sr = Inr (Finite x)" "off = trunc_toward_zero x"
    by blast
  have formula: "fmul (fdiv (fmul (float_of_int (int (i0 + k))) (Finite 1)) d) (Finite 1000) = Finite x"
    using offset_ms_formula[OF x(1) assms(3)] by simp
  have nonneg: "0 \<le> x"
    using x(1) assms(3,4) by (rule offset_ms_nonneg)
  from trunc_nonneg[OF nonneg] ts x(2)
  have "trunc_toward_zero x = \<lfloor>x\<rfloor>"
    "of_int (r_timestamp r - base_ts_ms) \<le> x"
    "x < of_int (r_timestamp r - base_ts_ms) + 1"
    by simp_all
  with k formula nonneg ts x(2) show ?thesis
    by blast
qed

text \<open>
  The offset is the binary64 product, not the real number \<open>i / sr * 1000\<close>: at the rate
  0.1 (the float nearest to it, which is a little larger) the sample of index 1 gets the
  offset 10000, although the real quotient is below 10000.
\<close>

lemma offset_is_the_binary64_product:
  "round_double (1 / 10) = Finite (3602879701896397 / 36028797018963968)
   \<and> sample_offset 1 (JFloat (Finite (3602879701896397 / 36028797018963968))) = Inr 10000
   \<and> (1 :: rat) / (3602879701896397 / 36028797018963968) * 1000 < 10000"
proof -
  have "sample_offset 1 (JFloat (Finite (3602879701896397 / 36028797018963968))) = Inr 10000"
    by code_simp
  then show ?thesis
    by (simp add: double_0_1)
qed

lemma thirds_example:
  "emit_samples 1000 (JInt 3) ''AA'' 0 [''1'', ''x'', ''3'']
     = Inr [\<lparr>r_timestamp = 1000, r_tag = ''AA'', r_value = Finite 1\<rparr>,
            \<lparr>r_timestamp = 1666, r_tag = ''AA'', r_value = Finite 3\<rparr>]
   \<and> as_divisor (JInt 3) = Inr (Finite 3)
   \<and> fmul (fdiv (fmul (float_of_int 2) (Finite 1)) (Finite 3)) (Finite 1000)
       = Finite (5864062014805333 / 8796093022208)"
  by code_simp

theorem sample_timestamp_truncates_witness:
  "\<exists>k x. k < 3
     \<and> fmul (fdiv (fmul (float_of_int (int (0 + k))) (Finite 1)) (Finite 3)) (Finite 1000) = Finite x
     \<and> 1666 = 1000 + trunc_toward_zero x
     \<and> of_int (1666 - 1000) \<le> x \<and> x < of_int (1666 - 1000) + 1"
proof -
  let ?r = "\<lparr>r_timestamp = 1666, r_tag = ''AA'', r_value = Finite 3\<rparr>"
  let ?recs = "[\<lparr>r_timestamp = 1000, r_tag = ''AA'', r_value = Finite 1\<rparr>, ?r]"
  have h1: "emit_samples 1000 (JInt 3) ''AA'' 0 [''1'', ''x'', ''3''] = Inr ?recs"
    using thirds_example by simp
  have h2: "?r \<in> set ?recs" by simp
  have h3: "as_divisor (JInt 3) = Inr (Finite 3)"
    using thirds_example by simp
  have h4: "fpositive (Finite 3)" by (simp add: fpositive_def)
  from sample_timestamp_truncates[OF h1 h2 h3 h4] obtain k x where
    "k < length [''1'', ''x'', ''3'']"
    "fmul (fdiv (fmul (float_of_int (int (0 + k))) (Finite 1)) (Finite 3)) (Finite 1000) = Finite x"
    "r_timestamp ?r = 1000 + trunc_toward_zero x"
    "of_int (r_timestamp ?r - 1000) \<le> x"
    "x < of_int (r_timestamp ?r - 1000) + 1"
    by blast
  then have "k < 3
     \<and> fmul (fdiv (fmul (float_of_int (int (0 + k))) (Finite 1)) (Finite 3)) (Finite 1000) = Finite x
     \<and> 1666 = 1000 + trunc_toward_zero x
     \<and> of_int (1666 - 1000) \<le> x \<and> x < of_int (1666 - 1000) + 1"
    by simp
  then show ?thesis
    by blast
qed

section \<open>Properties of the upload handler\<close>

lemma convert_sessions_all_converted:
  "convert_sessions ev ss = Inr outs \<Longrightarrow> list_all2 (\<lambda>s out. convert_session ev s = Inr out) ss outs"
proof (induction ss arbitrary: outs)
  case Nil
  then show ?case by simp
next
  case (Cons s ss)
  from Cons.prems obtain out rest where
    "convert_session ev s = Inr out" "convert_sessions ev ss = Inr rest" "outs = out # rest"
    by (auto simp: bind_eq_Inr)
  with Cons.IH[of rest] show ?case by simp
qed

lemma convert_sessions_fails:
  assumes "s \<in> set ss" and "convert_session ev s = Inl e"
  shows "\<exists>e'. convert_sessions ev ss = Inl e'"
proof (cases "convert_sessions ev ss")
  case (Inl e')
  then show ?thesis by blast
next
  case (Inr outs)
  from convert_sessions_all_converted[OF Inr] assms(1)
  have "\<exists>out. convert_session ev s = Inr out"
    by (auto simp: list_all2_conv_all_nth in_set_conv_nth)
  with assms(2) show ?thesis by simp
qed

lemma convert_sessions_first_failure:
  assumes "\<forall>s \<in> set pre. \<exists>out. convert_session ev s = Inr out"
    and "convert_session ev s = Inl e"
  shows "convert_sessions ev (pre @ s # rest) = Inl e"
  using assms(1)
proof (induction pre)
  case Nil
  then show ?case using assms(2) by simp
next
  case (Cons a pre)
  then obtain out where "convert_session ev a = Inr out" by auto
  with Cons show ?case by simp
qed

lemma handle_upload_failed:
  assumes "sess \<in> set (find_emotibit_sessions (env_walk ev))" and "convert_session ev sess = Inl e"
  shows "\<exists>e'. handle_upload ev = Failed e'"
proof -
  from assms(1) have ne: "find_emotibit_sessions (env_walk ev) \<noteq> []" by auto
  from convert_sessions_fails[OF assms] obtain e' where
    "convert_sessions ev (find_emotibit_sessions (env_walk ev)) = Inl e'" by blast
  with ne show ?thesis by (simp add: handle_upload_def)
qed

lemma load_empty_or_malformed:
  "empty_or_malformed doc \<Longrightarrow> load_emotibit_json py_str doc = Inl ValueError"
  by (auto simp: empty_or_malformed_def load_emotibit_json_def split: option.splits)

lemma convert_session_empty_or_malformed:
  "empty_or_malformed (env_json ev (sess_json sess)) \<Longrightarrow> convert_session ev sess = Inl ValueError"
  by (simp add: convert_session_def load_empty_or_malformed)

text \<open>
  Claim C6. The metadata parser raises its parse error (\<^verbatim>\<open>ValueError\<close>) on a metadata
  document that is empty or malformed, an empty array in particular. When that is the
  document of a session the matcher found, the run is aborted: the handler ends with an
  error and offers no output; the error it reports is this one when the sessions before
  that session convert.
\<close>

theorem empty_metadata_aborts_run:
  assumes "sess \<in> set (find_emotibit_sessions (env_walk ev))"
    and "empty_or_malformed (env_json ev (sess_json sess))"
  shows "load_emotibit_json (env_py_str ev) (env_json ev (sess_json sess)) = Inl ValueError
       \<and> (\<exists>e. handle_upload ev = Failed e)
       \<and> (\<forall>pre rest. find_emotibit_sessions (env_walk ev) = pre @ sess # rest
             \<and> (\<forall>s \<in> set pre. \<exists>out. convert_session ev s = Inr out)
            \<longrightarrow> handle_upload ev = Failed ValueError)
       \<and> empty_or_malformed (Some (JArr []))"
proof (intro conjI allI impI)
  show "load_emotibit_json (env_py_str ev) (env_json ev (sess_json sess)) = Inl ValueError"
    using assms(2) by (rule load_empty_or_malformed)
  show "\<exists>e. handle_upload ev = Failed e"
    using assms(1) convert_session_empty_or_malformed[OF assms(2)] by (rule handle_upload_failed)
  show "empty_or_malformed (Some (JArr []))"
    by (simp add: empty_or_malformed_def)
next
  fix pre rest
  assume a: "find_emotibit_sessions (env_walk ev) = pre @ sess # rest
             \<and> (\<forall>s \<in> set pre. \<exists>out. convert_session ev s = Inr out)"
  then have "convert_sessions ev (find_emotibit_sessions (env_walk ev)) = Inl ValueError"
    using convert_sessions_first_failure[of pre ev sess ValueError rest]
      convert_session_empty_or_malformed[OF assms(2)] by simp
  moreover have "find_emotibit_sessions (env_walk ev) \<noteq> []"
    using a by simp
  ultimately show "handle_upload ev = Failed ValueError"
    by (simp add: handle_upload_def)
qed

lemma two_session_upload_sessions:
  "find_emotibit_sessions (env_walk two_session_upload)
     = [\<lparr>sess_json = ''extracted/a_info.json'', sess_csv = ''extracted/a.csv'', sess_name = ''a''\<rparr>,
        \<lparr>sess_json = ''extracted/b_info.json'', sess_csv = ''extracted/b.csv'', sess_name = ''b''\<rparr>]"
  by code_simp

lemma two_session_upload_first_converts:
  "convert_session two_session_upload
     \<lparr>sess_json = ''extracted/a_info.json'', sess_csv = ''extracted/a.csv'', sess_name = ''a''\<rparr>
   = Inr (''a'',
      \<lparr>f_device_csv_name = ''emotibit_device.csv'',
       f_device_csv =
         \<lparr>df_columns = [''timestamp'', ''Time'', ''Accelerometer_AA''],
          df_rows =
            [(1000, [Finite 0, Finite (3602879701896397 / 36028797018963968)]),
             (1040, [Finite (5764607523034235 / 144115188075855872),
                     Finite (3602879701896397 / 18014398509481984)])]\<rparr>,
       f_metadata =
         \<lparr>m_recording_id = ''EmotiBit : device'', m_file_name = ''emotibit_device.csv'',
          m_device_id = ''EmotiBit'', m_device_name = JStr ''EmotiBit'',
          m_type = ''physio'', m_sampling_rate = 25\<rparr>\<rparr>)"
  by code_simp

lemma two_session_upload_second_doc:
  "env_json two_session_upload ''extracted/b_info.json'' = Some (JArr [])"
  by code_simp

theorem empty_metadata_aborts_run_witness:
  "load_emotibit_json (env_py_str two_session_upload) (Some (JArr [])) = Inl ValueError
   \<and> handle_upload two_session_upload = Failed ValueError"
proof -
  let ?a = "\<lparr>sess_json = ''extracted/a_info.json'', sess_csv = ''extracted/a.csv'', sess_name = ''a''\<rparr>"
  let ?b = "\<lparr>sess_json = ''extracted/b_info.json'', sess_csv = ''extracted/b.csv'', sess_name = ''b''\<rparr>"
  have h1: "?b \<in> set (find_emotibit_sessions (env_walk two_session_upload))"
    by (simp add: two_session_upload_sessions)
  have h2: "empty_or_malformed (env_json two_session_upload (sess_json ?b))"
    by (simp add: two_session_upload_second_doc empty_or_malformed_def)
  have h3: "find_emotibit_sessions (env_walk two_session_upload) = [?a] @ ?b # []"
    by (simp add: two_session_upload_sessions)
  have h4: "\<forall>s \<in> set [?a]. \<exists>out. convert_session two_session_upload s = Inr out"
    by (simp add: two_session_upload_first_converts)
  from empty_metadata_aborts_run[OF h1 h2] h3 h4
  have "load_emotibit_json (env_py_str two_session_upload) (env_json two_session_upload (sess_json ?b)) = Inl ValueError"
    and "handle_upload two_session_upload = Failed ValueError"
    by blast+
  then show ?thesis
    by (simp add: two_session_upload_second_doc)
qed

text \<open>
  Claim C4 says that the failure of one session does not affect the others. It does: in the
  upload with the sessions \<^verbatim>\<open>a\<close> and \<^verbatim>\<open>b\<close>, where the metadata document of
  \<^verbatim>\<open>b\<close> is an empty array, session \<^verbatim>\<open>a\<close> converts and its folder is written, and the
  handler still ends with the error of \<^verbatim>\<open>b\<close> and no output.
\<close>

theorem failed_session_loses_other_sessions:
  "length (find_emotibit_sessions (env_walk two_session_upload)) = 2
   \<and> (\<exists>out. convert_session two_session_upload
               \<lparr>sess_json = ''extracted/a_info.json'', sess_csv = ''extracted/a.csv'', sess_name = ''a''\<rparr>
             = Inr out)
   \<and> convert_session two_session_upload
        \<lparr>sess_json = ''extracted/b_info.json'', sess_csv = ''extracted/b.csv'', sess_name = ''b''\<rparr>
      = Inl ValueError
   \<and> handle_upload two_session_upload = Failed ValueError"
proof -
  let ?a = "\<lparr>sess_json = ''extracted/a_info.json'', sess_csv = ''extracted/a.csv'', sess_name = ''a''\<rparr>"
  let ?b = "\<lparr>sess_json = ''extracted/b_info.json'', sess_csv = ''extracted/b.csv'', sess_name = ''b''\<rparr>"
  have b: "convert_session two_session_upload ?b = Inl ValueError"
    by (rule convert_session_empty_or_malformed)
       (simp add: two_session_upload_second_doc empty_or_malformed_def)
  have "convert_sessions two_session_upload ([?a] @ ?b # []) = Inl ValueError"
    by (rule convert_sessions_first_failure) (simp_all add: two_session_upload_first_converts b)
  then have "handle_upload two_session_upload = Failed ValueError"
    by (simp add: handle_upload_def two_session_upload_sessions)
  then show ?thesis
    using b by (simp add: two_session_upload_sessions two_session_upload_first_converts)
qed

text \<open>
  Claim C4, as the code has it. The session loop has no handler of its own: when the
  conversion of any session the matcher found fails, the handler ends with an error and
  produces no output for any session; it offers the archive only when every session
  converted, and the archive then holds one folder for each session.
\<close>

theorem failing_session_aborts_batch:
  "(\<forall>sess e. sess \<in> set (find_emotibit_sessions (env_walk ev)) \<and> convert_session ev sess = Inl e
      \<longrightarrow> (\<exists>e'. handle_upload ev = Failed e'))
   \<and> (\<forall>outs. handle_upload ev = Download outs
      \<longrightarrow> list_all2 (\<lambda>s out. convert_session ev s = Inr out) (find_emotibit_sessions (env_walk ev)) outs)"
proof (intro conjI allI impI)
  fix sess e
  assume "sess \<in> set (find_emotibit_sessions (env_walk ev)) \<and> convert_session ev sess = Inl e"
  then show "\<exists>e'. handle_upload ev = Failed e'"
    using handle_upload_failed by blast
next
  fix outs
  assume "handle_upload ev = Download outs"
  then have "convert_sessions ev (find_emotibit_sessions (env_walk ev)) = Inr outs"
    by (auto simp: handle_upload_def Let_def split: if_splits sum.splits)
  then show "list_all2 (\<lambda>s out. convert_session ev s = Inr out) (find_emotibit_sessions (env_walk ev)) outs"
    by (rule convert_sessions_all_converted)
qed

theorem failing_session_aborts_batch_witness:
  "\<exists>e'. handle_upload two_session_upload = Failed e'"
proof -
  let ?b = "\<lparr>sess_json = ''extracted/b_info.json'', sess_csv = ''extracted/b.csv'', sess_name = ''b''\<rparr>"
  have h1: "?b \<in> set (find_emotibit_sessions (env_walk two_session_upload))"
    by (simp add: two_session_upload_sessions)
  have h2: "convert_session two_session_upload ?b = Inl ValueError"
    by (rule convert_session_empty_or_malformed)
       (simp add: two_session_upload_second_doc empty_or_malformed_def)
  from failing_session_aborts_batch[of two_session_upload] h1 h2 show ?thesis
    by blast
qed

section \<open>Properties of the writer\<close>

lemma dropna_NaN_Cons: "dropna (NaN # xs) = dropna xs"
  by (simp add: dropna_def)

lemma sort_floats_Nil_iff: "sort_floats xs = [] \<longleftrightarrow> xs = []"
proof -
  have ins: "insert_float x ys \<noteq> []" for x ys
    by (cases ys) auto
  show ?thesis
    by (cases xs) (simp_all add: sort_floats_def ins)
qed

lemma median_Nil: "median [] = NaN"
  by (simp add: median_def sort_floats_def)

lemma sampling_rate_guess_meets_spec:
  "sampling_rate_guess device_df = spec_sampling_rate device_df"
proof (cases "time_column device_df")
  case None
  then show ?thesis
    by (simp add: sampling_rate_guess_def spec_sampling_rate_def)
next
  case (Some ts)
  have rows: "(1 < length (df_rows device_df)) = (2 \<le> length (df_rows device_df))"
    by linarith
  show ?thesis
  proof (cases "dropna (consecutive_differences ts) = []")
    case True
    then show ?thesis
      using Some
      by (simp add: sampling_rate_guess_def spec_sampling_rate_def dropna_NaN_Cons median_Nil
            fpositive_def)
  next
    case False
    then show ?thesis
      using Some rows
      by (simp add: sampling_rate_guess_def spec_sampling_rate_def dropna_NaN_Cons Let_def)
  qed
qed

text \<open>
  Claim C7. The \<^verbatim>\<open>sampling_rate\<close> that \<^verbatim>\<open>write_yq_folder\<close> writes into the metadata
  index is the rate of the specification: \<^verbatim>\<open>round(1 / median)\<close> of the consecutive
  differences of the \<^verbatim>\<open>Time\<close> column when the table has at least two rows and that
  median is positive, and 0 in every other case: no \<^verbatim>\<open>Time\<close> column, fewer than two
  rows, or a median that is not positive.
\<close>

theorem metadata_sampling_rate:
  assumes "write_yq_folder device_df device_meta = Inr out"
  shows "Inr (m_sampling_rate (f_metadata out)) = spec_sampling_rate device_df
       \<and> (time_column device_df = None \<longrightarrow> m_sampling_rate (f_metadata out) = 0)
       \<and> (length (df_rows device_df) < 2 \<longrightarrow> m_sampling_rate (f_metadata out) = 0)
       \<and> (\<forall>time_values. time_column device_df = Some time_values
             \<and> \<not> fpositive (median (dropna (consecutive_differences time_values)))
            \<longrightarrow> m_sampling_rate (f_metadata out) = 0)
       \<and> (\<forall>time_values. time_column device_df = Some time_values
             \<and> 2 \<le> length (df_rows device_df)
             \<and> fpositive (median (dropna (consecutive_differences time_values)))
            \<longrightarrow> py_round (fdiv (Finite 1) (median (dropna (consecutive_differences time_values))))
                  = Inr (m_sampling_rate (f_metadata out)))"
proof -
  from assms obtain guess where
    g: "sampling_rate_guess device_df = Inr guess" and
    m: "m_sampling_rate (f_metadata out) = guess"
    by (auto simp: write_yq_folder_def bind_eq_Inr split: json.splits)
  from g have s: "spec_sampling_rate device_df = Inr guess"
    by (simp add: sampling_rate_guess_meets_spec)
  show ?thesis
    using s m by (auto simp: spec_sampling_rate_def split: option.splits if_splits)
qed

lemma example_folder:
  "write_yq_folder
     \<lparr>df_columns = [''timestamp'', ''Time'', ''Accelerometer_AA''],
      df_rows =
        [(1000, [Finite 0, Finite (3602879701896397 / 36028797018963968)]),
         (1040, [Finite (5764607523034235 / 144115188075855872),
                 Finite (3602879701896397 / 18014398509481984)])]\<rparr>
     [(''name'', JStr ''Emoti Bit''), (''__device_name__'', JStr ''Emoti Bit''),
      (''__device_id__'', JStr ''Emoti_Bit'')]
   = Inr \<lparr>f_device_csv_name = ''emoti_bit_device.csv'',
          f_device_csv =
            \<lparr>df_columns = [''timestamp'', ''Time'', ''Accelerometer_AA''],
             df_rows =
               [(1000, [Finite 0, Finite (3602879701896397 / 36028797018963968)]),
                (1040, [Finite (5764607523034235 / 144115188075855872),
                        Finite (3602879701896397 / 18014398509481984)])]\<rparr>,
          f_metadata =
            \<lparr>m_recording_id = ''Emoti_Bit : device'', m_file_name = ''emoti_bit_device.csv'',
             m_device_id = ''Emoti_Bit'', m_device_name = JStr ''Emoti Bit'',
             m_type = ''physio'', m_sampling_rate = 25\<rparr>\<rparr>"
  by code_simp

theorem metadata_sampling_rate_witness:
  "spec_sampling_rate
     \<lparr>df_columns = [''timestamp'', ''Time'', ''Accelerometer_AA''],
      df_rows =
        [(1000, [Finite 0, Finite (3602879701896397 / 36028797018963968)]),
         (1040, [Finite (5764607523034235 / 144115188075855872),
                 Finite (3602879701896397 / 18014398509481984)])]\<rparr>
   = Inr 25"
  using metadata_sampling_rate[OF example_folder] by simp

section \<open>Properties of the wide table\<close>













subsection \<open>Labels of the registered channels\<close>


lemma labelled_from_mono:
  assumes "labelled_from py_str entries tg ch" and "set entries \<subseteq> set entries'"
  shows "labelled_from py_str entries' tg ch"
  using assms unfolding labelled_from_def list_ex_iff by blast






subsection \<open>Tables with NaN values\<close>

lemma load_accelerometer_doc:
  "load_emotibit_json (\<lambda>x. []) (Some accelerometer_doc)
     = Inr ([(''name'', JStr ''EmotiBit''), (''__device_name__'', JStr ''EmotiBit''),
             (''__device_id__'', JStr ''EmotiBit'')],
            accelerometer_channels)"
  by code_simp












end
